theory Spec2Isabelle
  imports
    Main
    "HOL-Library.Char_ord"
    "HOL-Library.List_Lexorder"
    "HOL-Library.Product_Lexorder"
    "HOL-Library.Multiset"
begin

section \<open>Feature-change notifications of the dashboard (internals/notifier.py)\<close>

text \<open>
  The notifier computes, for one changed feature, a table from recipient address to the
  reasons why that address is notified, and turns every entry of the table into one
  outbound email task.  Python strings are modelled as \<open>string\<close>; they are compared the
  way Python compares them (character by character, a proper prefix first), which is the
  lexicographic order of \<open>HOL-Library.List_Lexorder\<close> over \<open>HOL-Library.Char_ord\<close>.
  Tuples are compared component by component (\<open>HOL-Library.Product_Lexorder\<close>).
\<close>

subsection \<open>Errors\<close>

text \<open>
  Every \<^verbatim>\<open>raise\<close>, failed \<^verbatim>\<open>assert\<close> and failed dictionary lookup of the source is
  a value of this type; a function that can fail returns \<open>error + 'a\<close>.
\<close>

datatype error =
  AssertionError string
| KeyError string
| ValueError string
| Abort nat

subsection \<open>The recipient-reasons table\<close>

text \<open>
  \<^verbatim>\<open>addr_reasons: dict[str, list[str]] = collections.defaultdict(list)\<close>.
  The table is an association list in insertion order, as a Python dictionary is.
  Every list stored in it is created by the \<^verbatim>\<open>defaultdict\<close> itself, so no two
  keys share a list object.
\<close>

type_synonym addr_reasons = "(string \<times> string list) list"

text \<open>
  \<^verbatim>\<open>addr_reasons[email].append(reason)\<close>: a missing key is first bound to a fresh empty
  list (the \<^verbatim>\<open>defaultdict\<close> factory), then the reason is appended to the list of the key.
\<close>

fun append_reason :: "addr_reasons \<Rightarrow> string \<Rightarrow> string \<Rightarrow> addr_reasons" where
  "append_reason [] email reason = [(email, [] @ [reason])]"
| "append_reason ((k, rs) # t) email reason =
     (if k = email then (k, rs @ [reason]) # t
      else (k, rs) # append_reason t email reason)"

text \<open>
  \<^verbatim>\<open>
  def accumulate_reasons(addr_reasons, addr_list, reason):
    for email in addr_list:
      addr_reasons[email].append(reason)
  \<close>
  The source mutates the table in place; the model returns the new table.
\<close>

fun accumulate_reasons :: "addr_reasons \<Rightarrow> string list \<Rightarrow> string \<Rightarrow> addr_reasons" where
  "accumulate_reasons t [] reason = t"
| "accumulate_reasons t (email # addr_list) reason =
     accumulate_reasons (append_reason t email reason) addr_list reason"

text \<open>\<^verbatim>\<open>table[addr]\<close> read without creating the entry: \<^verbatim>\<open>table.get(addr, [])\<close>.\<close>

definition reasons_of :: "addr_reasons \<Rightarrow> string \<Rightarrow> string list" where
  "reasons_of t addr = (case map_of t addr of None \<Rightarrow> [] | Some rs \<Rightarrow> rs)"

subsection \<open>Email tasks\<close>

text \<open>
  A task is a dictionary.  The notification tasks have the keys
  \<^verbatim>\<open>to, subject, reply_to, html\<close>; the task of a review comment posted to the mailing
  list has the keys \<^verbatim>\<open>to, from_user, references, subject, html\<close>.
\<close>

datatype email_task =
  Email_Task (to: string) (subject: string) (reply_to: "string option") (html: string)
| Comment_Task (to: string) (from_user: string) (references: "string option")
    (subject: string) (html: string)

text \<open>\<^verbatim>\<open>sep.join(lines)\<close>\<close>

fun join :: "string \<Rightarrow> string list \<Rightarrow> string" where
  "join sep [] = []"
| "join sep [x] = x"
| "join sep (x # y # ys) = x @ sep @ join sep (y # ys)"

abbreviation newline :: string where
  "newline \<equiv> [CHR 0x0A]"

text \<open>
  The settings and the permission check are not part of the notifier; they are
  parameters of the model.
\<close>

record settings =
  SITE_URL :: string
  SEND_EMAIL :: bool
  REVIEW_COMMENT_MAILING_LIST :: string

text \<open>
  \<^verbatim>\<open>sorted(set(reasons))\<close>: the distinct reasons in ascending order.  The iteration
  order of the Python set does not matter, since \<^verbatim>\<open>sorted\<close> fixes the order.
\<close>

definition sorted_set :: "string list \<Rightarrow> string list" where
  "sorted_set reasons = sort (remdups reasons)"

definition footer_lines :: "settings \<Rightarrow> string list \<Rightarrow> string list" where
  "footer_lines st reasons =
     [''<p>You are receiving this email because:</p>'', ''<ul>'']
     @ map (\<lambda>reason. ''<li>'' @ reason @ ''</li>'') (sorted_set reasons)
     @ [''</ul>'']
     @ [''<p><a href=\"'' @ SITE_URL st @ ''settings\">Unsubscribe</a></p>'']"

text \<open>
  \<^verbatim>\<open>convert_reasons_to_task(addr, reasons, email_html, subject, triggering_user_email)\<close>.
  The parameter \<open>can_create_feature\<close> stands for
  \<^verbatim>\<open>permissions.can_create_feature(users.User(email=addr))\<close>.
\<close>

definition convert_reasons_to_task ::
  "settings \<Rightarrow> (string \<Rightarrow> bool) \<Rightarrow> string \<Rightarrow> string list \<Rightarrow> string \<Rightarrow> string
     \<Rightarrow> string option \<Rightarrow> error + email_task" where
  "convert_reasons_to_task st can_create_feature addr reasons email_html subj
       triggering_user_email =
     (if reasons = [] then Inl (AssertionError ''We are emailing someone without any reason'')
      else
        let email_html_with_footer =
              email_html @ newline @ newline @ join newline (footer_lines st reasons);
            reply_to = (if can_create_feature addr then triggering_user_email else None)
        in Inr (Email_Task addr subj reply_to email_html_with_footer))"

text \<open>
  The list comprehension that ends each of the four \<^verbatim>\<open>make_*_email\<close> functions:
  \<^verbatim>\<open>
  [convert_reasons_to_task(addr, reasons, email_html, subject, triggering_user_email)
   for addr, reasons in sorted(addr_reasons.items())]
  \<close>
  An exception raised for one item ends the comprehension.
\<close>

fun collect :: "('a \<Rightarrow> error + 'b) \<Rightarrow> 'a list \<Rightarrow> error + 'b list" where
  "collect f [] = Inr []"
| "collect f (x # xs) =
     (case f x of
        Inl e \<Rightarrow> Inl e
      | Inr y \<Rightarrow> (case collect f xs of Inl e \<Rightarrow> Inl e | Inr ys \<Rightarrow> Inr (y # ys)))"

definition all_tasks ::
  "settings \<Rightarrow> (string \<Rightarrow> bool) \<Rightarrow> addr_reasons \<Rightarrow> string \<Rightarrow> string \<Rightarrow> string option
     \<Rightarrow> error + email_task list" where
  "all_tasks st can_create_feature t email_html subj triggering_user_email =
     collect (\<lambda>(addr, reasons).
        convert_reasons_to_task st can_create_feature addr reasons email_html subj
          triggering_user_email) (sort t)"

subsection \<open>Entities read from the datastore\<close>

text \<open>
  The entities are declared in \<^verbatim>\<open>internals/core_models.py\<close>,
  \<^verbatim>\<open>internals/review_models.py\<close> and \<^verbatim>\<open>internals/user_models.py\<close>; the records
  hold the properties the notifier reads.  An integer property that may be unset is an
  \<open>int option\<close>; a string property that may be unset is a \<open>string option\<close>.
\<close>

record change =
  prop_name :: string
  old_val :: string
  new_val :: string

record MilestoneSet =
  desktop_first :: "int option"
  android_first :: "int option"
  webview_first :: "int option"

record Stage =
  stage_type :: int
  milestones :: "MilestoneSet option"
  intent_thread_url :: "string option"
  intent_subject_line :: "string option"

record Gate =
  stage_id :: int
  gate_type :: int
  assignee_emails :: "string list"

record FeatureEntry =
  key_integer_id :: int
  name :: string
  category :: int
  feature_type :: int
  impl_status_chrome :: int
  owner_emails :: "string list"
  editor_emails :: "string list"
  cc_emails :: "string list"
  devrel_emails :: "string list"
  creator_email :: "string option"
  updater_email :: "string option"
  blink_components :: "string list"
  doc_links :: "string list"

record FeatureOwner =
  email :: string
  watching_all_features :: bool

record BlinkComponent =
  owners :: "FeatureOwner list"
  subscribers :: "FeatureOwner list"

record UserPref =
  email :: string
  notify_as_starrer :: bool
  bounced :: bool

record FeatureStar =
  email :: string
  feature_id :: int
  starred :: bool

record approval_field =
  name :: string
  field_id :: int

text \<open>The dictionary returned by \<^verbatim>\<open>stage_helpers.get_stage_info_for_templates\<close>.\<close>

record stage_info =
  ship_stages :: "Stage list"
  should_render_mstone_table :: bool

text \<open>The keyword arguments handed to the template of an email body.\<close>

record body_data =
  bd_feature :: FeatureEntry
  bd_stage_info :: stage_info
  bd_should_render_mstone_table :: bool
  bd_creator_email :: "string option"
  bd_updater_email :: "string option"
  bd_id :: int
  bd_milestone :: string
  bd_status :: string
  bd_formatted_changes :: string
  bd_moz_link_urls :: "string list"

subsection \<open>Collaborators\<close>

text \<open>
  \<^verbatim>\<open>urllib.parse.urlparse(link).hostname\<close>: the standard library raises
  \<^verbatim>\<open>ValueError\<close> with a message for a link it cannot parse (an unbalanced bracket in
  the host, for one); otherwise the host name is a string in lower case, or
  \<^verbatim>\<open>None\<close> when the link has no host.
\<close>

datatype parsed_url = Malformed string | Hostname "string option"

text \<open>
  Everything the notifier imports from other modules is a field of the environment:
  the settings, the tables of \<^verbatim>\<open>core_enums\<close> and \<^verbatim>\<open>approval_defs\<close>, the datastore
  queries (the snapshot of the stored entities), the permission check and the template
  engine.  A dictionary of another module is a map, and indexing it with a missing key
  raises \<^verbatim>\<open>KeyError\<close>.
\<close>

record env =
  settings :: settings
  MAX_LOG_LINE :: nat
  IWA :: int
  FEATURE_TYPE_DEPRECATION_ID :: int
  STAGE_TYPES_SHIPPING :: "int \<rightharpoonup> int option"
  IMPLEMENTATION_STATUS :: "int \<rightharpoonup> string"
  APPROVAL_FIELDS_BY_ID :: "int \<rightharpoonup> approval_field"
  PrototypeApproval :: approval_field
  ExperimentApproval :: approval_field
  ExtendExperimentApproval :: approval_field
  get_approvers :: "int \<Rightarrow> string list"
  get_gate_by_type :: "int \<Rightarrow> int \<Rightarrow> Gate option"
  can_create_feature :: "string \<Rightarrow> bool"
  get_feature_stages :: "int \<Rightarrow> (int \<rightharpoonup> Stage list)"
  get_stage_info_for_templates :: "FeatureEntry \<Rightarrow> stage_info"
  FeatureEntry_get_by_id :: "int \<rightharpoonup> FeatureEntry"
  Gate_get_by_id :: "int \<rightharpoonup> Gate"
  Stage_get_by_id :: "int \<rightharpoonup> Stage"
  FeatureOwner_fetch :: "FeatureOwner list"
  BlinkComponent_get_by_name :: "string \<rightharpoonup> BlinkComponent"
  FeatureStar_fetch :: "FeatureStar list"
  get_prefs_for_emails :: "string list \<Rightarrow> UserPref list"
  urlparse_hostname :: "string \<Rightarrow> parsed_url"
  unquote :: "string \<Rightarrow> string"
  escape :: "string \<Rightarrow> string"
  render_template :: "string \<Rightarrow> body_data \<Rightarrow> string"
  render_comment_template :: "string \<Rightarrow> string \<Rightarrow> string"

text \<open>Python truthiness of an optional integer and of an optional string.\<close>

definition truthy :: "int option \<Rightarrow> bool" where
  "truthy v = (case v of None \<Rightarrow> False | Some n \<Rightarrow> n \<noteq> 0)"

definition truthy_str :: "string option \<Rightarrow> bool" where
  "truthy_str v = (case v of None \<Rightarrow> False | Some s \<Rightarrow> s \<noteq> [])"

subsection \<open>The email body\<close>

text \<open>\<^verbatim>\<open>str(n)\<close> for an integer and for an optional integer.\<close>

fun str_nat :: "nat \<Rightarrow> string" where
  "str_nat n =
     (if n < 10 then [char_of (48 + n)]
      else str_nat (n div 10) @ [char_of (48 + n mod 10)])"

declare str_nat.simps [simp del]

definition str_int :: "int \<Rightarrow> string" where
  "str_int i = (if i < 0 then ''-'' @ str_nat (nat (- i)) else str_nat (nat i))"

definition str_opt :: "int option \<Rightarrow> string" where
  "str_opt v = (case v of None \<Rightarrow> ''None'' | Some i \<Rightarrow> str_int i)"

text \<open>\<^verbatim>\<open>min(values, default=None)\<close>\<close>

definition min_default :: "int list \<Rightarrow> int option" where
  "min_default vs = (case vs of [] \<Rightarrow> None | v # ws \<Rightarrow> Some (fold min ws v))"

text \<open>
  The generator \<^verbatim>\<open>(stage.milestones.f for stage in ship_stages
  if stage.milestones and stage.milestones.f)\<close> for a milestone field \<open>f\<close>.
\<close>

definition set_milestones :: "(MilestoneSet \<Rightarrow> int option) \<Rightarrow> Stage list \<Rightarrow> int list" where
  "set_milestones f stages =
     concat (map (\<lambda>stage.
        case milestones stage of
          None \<Rightarrow> []
        | Some ms \<Rightarrow> (case f ms of None \<Rightarrow> [] | Some n \<Rightarrow> if n \<noteq> 0 then [n] else []))
      stages)"

definition determine_milestone_string :: "Stage list \<Rightarrow> string" where
  "determine_milestone_string stages =
     (let first_desktop = min_default (set_milestones desktop_first stages);
          first_android = min_default (set_milestones android_first stages);
          milestone_str = str_opt first_desktop
      in if \<not> truthy first_desktop \<and> truthy first_android
         then str_opt first_android @ '' (android)''
         else milestone_str)"

definition formatted_change :: "env \<Rightarrow> change \<Rightarrow> string" where
  "formatted_change e prop =
     ''<li><b>'' @ prop_name prop @ '':</b> <br/><b>old:</b> '' @ escape e (old_val prop)
     @ '' <br/><b>new:</b> '' @ escape e (new_val prop) @ ''<br/></li><br/>''"

text \<open>
  \<^verbatim>\<open>[link for link in fe.doc_links
   if urllib.parse.urlparse(link).hostname == 'developer.mozilla.org']\<close>: the first
  link that cannot be parsed ends the comprehension with its \<^verbatim>\<open>ValueError\<close>.
\<close>

fun moz_links :: "(string \<Rightarrow> parsed_url) \<Rightarrow> string list \<Rightarrow> error + string list" where
  "moz_links hostname_of [] = Inr []"
| "moz_links hostname_of (link # links) =
     (case hostname_of link of
        Malformed msg \<Rightarrow> Inl (ValueError msg)
      | Hostname hostname \<Rightarrow>
          (case moz_links hostname_of links of
             Inl err \<Rightarrow> Inl err
           | Inr rest \<Rightarrow>
               Inr (if hostname = Some ''developer.mozilla.org'' then link # rest else rest)))"

text \<open>
  \<^verbatim>\<open>format_email_body(template_path, fe, changes, updater_email=None)\<close>.  It raises
  when a documentation link of the feature cannot be parsed, and, after the changes are
  formatted, when the implementation status of the feature is not a key of
  \<^verbatim>\<open>core_enums.IMPLEMENTATION_STATUS\<close>.
\<close>

definition format_email_body ::
  "env \<Rightarrow> string \<Rightarrow> FeatureEntry \<Rightarrow> change list \<Rightarrow> string option \<Rightarrow> error + string" where
  "format_email_body e template_path fe changes updater =
     (let stage_info = get_stage_info_for_templates e fe;
          milestone_str = determine_milestone_string (ship_stages stage_info)
      in case moz_links (urlparse_hostname e) (doc_links fe) of
           Inl err \<Rightarrow> Inl err
         | Inr moz_link_urls \<Rightarrow>
      (let formatted_changes = concat (map (formatted_change e) changes);
           formatted_changes =
             (if formatted_changes = [] then ''<li>None</li>'' else formatted_changes)
       in case IMPLEMENTATION_STATUS e (impl_status_chrome fe) of
           None \<Rightarrow> Inl (KeyError ''IMPLEMENTATION_STATUS'')
         | Some status \<Rightarrow>
             Inr (render_template e template_path
               \<lparr> bd_feature = fe,
                 bd_stage_info = stage_info,
                 bd_should_render_mstone_table = should_render_mstone_table stage_info,
                 bd_creator_email = creator_email fe,
                 bd_updater_email = (if truthy_str updater then updater else updater_email fe),
                 bd_id = key_integer_id fe,
                 bd_milestone = milestone_str,
                 bd_status = status,
                 bd_formatted_changes = formatted_changes,
                 bd_moz_link_urls = moz_link_urls \<rparr>)))"

subsection \<open>Subscription rules\<close>

definition WEBVIEW_RULE_REASON :: string where
  "WEBVIEW_RULE_REASON = ''This feature has an android milestone, but not a webview milestone''"

definition WEBVIEW_RULE_ADDRS :: "string list" where
  "WEBVIEW_RULE_ADDRS = [''webview-leads-external@google.com'']"

definition IWA_RULE_REASON :: string where
  "IWA_RULE_REASON = ''You are subscribed to all IWA features''"

definition IWA_RULE_ADDRS :: "string list" where
  "IWA_RULE_ADDRS = [''iwa-dev@chromium.org'']"

text \<open>
  \<^verbatim>\<open>results[reason] = addrs\<close> on a dictionary kept in insertion order: the value of a
  present key is replaced where it stands, a new key goes to the end.
\<close>

fun dict_set :: "('k \<times> 'v) list \<Rightarrow> 'k \<Rightarrow> 'v \<Rightarrow> ('k \<times> 'v) list" where
  "dict_set [] k v = [(k, v)]"
| "dict_set ((k', v') # d) k v = (if k' = k then (k, v) # d else (k', v') # dict_set d k v)"

text \<open>
  \<^verbatim>\<open>apply_subscription_rules(fe, changes)\<close> returns \<^verbatim>\<open>{reason: [addrs]}\<close>.
  \<^verbatim>\<open>core_enums.STAGE_TYPES_SHIPPING[fe.feature_type]\<close> raises \<^verbatim>\<open>KeyError\<close> for a
  feature type that the table does not list; \<^verbatim>\<open>... or 0\<close> turns a listed
  \<^verbatim>\<open>None\<close> into 0.
\<close>

definition apply_subscription_rules ::
  "env \<Rightarrow> FeatureEntry \<Rightarrow> change list \<Rightarrow> error + (string \<times> string list) list" where
  "apply_subscription_rules e fe changes =
     (let changed_field_names = set (map prop_name changes);
          results = [];
          results = (if category fe = IWA e
                     then dict_set results IWA_RULE_REASON IWA_RULE_ADDRS else results);
          fe_stages = get_feature_stages e (key_integer_id fe)
      in case STAGE_TYPES_SHIPPING e (feature_type fe) of
           None \<Rightarrow> Inl (KeyError ''STAGE_TYPES_SHIPPING'')
         | Some listed \<Rightarrow>
             let stage_type = (case listed of None \<Rightarrow> 0 | Some n \<Rightarrow> n);
                 ship_stages = (case fe_stages stage_type of None \<Rightarrow> [] | Some ss \<Rightarrow> ss);
                 ship_milestones = (case ship_stages of [] \<Rightarrow> None | s # _ \<Rightarrow> milestones s);
                 milestone_fields = [''shipped_android_milestone'']
             in Inr (case ship_milestones of
                       None \<Rightarrow> results
                     | Some ms \<Rightarrow>
                         if truthy (android_first ms) \<and> \<not> truthy (webview_first ms)
                         then (if changed_field_names \<inter> set milestone_fields \<noteq> {}
                               then dict_set results WEBVIEW_RULE_REASON WEBVIEW_RULE_ADDRS
                               else results)
                         else results))"

subsection \<open>Recipients of a feature change\<close>

definition add_core_receivers :: "FeatureEntry \<Rightarrow> addr_reasons \<Rightarrow> addr_reasons" where
  "add_core_receivers fe t =
     (let t = accumulate_reasons t (owner_emails fe)
                ''You are listed as an owner of this feature'';
          t = accumulate_reasons t (editor_emails fe)
                ''You are listed as an editor of this feature'';
          t = accumulate_reasons t (cc_emails fe)
                ''You are CC'd on this feature'';
          t = accumulate_reasons t (devrel_emails fe)
                ''You are a devrel contact for this feature.''
      in t)"

text \<open>A line of the log: the level and the message.\<close>

datatype level = INFO | WARNING

type_synonym log_entry = "level \<times> string"

text \<open>
  The loop over \<^verbatim>\<open>fe.blink_components\<close>.  A name without a stored component is
  logged with \<^verbatim>\<open>logging.warning\<close> and the loop continues with the next name.
\<close>

fun add_component_receivers ::
  "env \<Rightarrow> string list \<Rightarrow> addr_reasons \<times> log_entry list \<Rightarrow> addr_reasons \<times> log_entry list" where
  "add_component_receivers e [] (t, lg) = (t, lg)"
| "add_component_receivers e (component_name # names) (t, lg) =
     (case BlinkComponent_get_by_name e component_name of
        None \<Rightarrow>
          add_component_receivers e names
            (t, lg @ [(WARNING, ''Blink component \"'' @ component_name
                        @ ''\" not found.Not sending email to subscribers'')])
      | Some component \<Rightarrow>
          let owner_emails = map FeatureOwner.email (owners component);
              subscriber_emails = map FeatureOwner.email (subscribers component);
              t = accumulate_reasons t owner_emails
                    ''You are an owner of this feature's component'';
              t = accumulate_reasons t subscriber_emails
                    ''You subscribe to this feature's component''
          in add_component_receivers e names (t, lg))"

text \<open>
  \<^verbatim>\<open>FeatureStar.get_feature_starrers(feature_id)\<close>: the preferences of the users who
  starred the feature, want to be notified as starrers and did not bounce.  Its two
  \<^verbatim>\<open>logging.info\<close> lines (how many stars were found, which addresses are looked up)
  are left out of the log of the model.
\<close>

definition get_feature_starrers :: "env \<Rightarrow> int \<Rightarrow> UserPref list" where
  "get_feature_starrers e fid =
     (let feature_stars =
            filter (\<lambda>fs. FeatureStar.feature_id fs = fid \<and> FeatureStar.starred fs)
              (FeatureStar_fetch e);
          emails = map FeatureStar.email feature_stars;
          user_prefs = get_prefs_for_emails e emails
      in filter (\<lambda>up. notify_as_starrer up \<and> \<not> bounced up) user_prefs)"

text \<open>
  \<^verbatim>\<open>for reason, sub_addrs in rule_results.items():
    accumulate_reasons(addr_reasons, sub_addrs, reason)\<close>
\<close>

fun accumulate_rules :: "addr_reasons \<Rightarrow> (string \<times> string list) list \<Rightarrow> addr_reasons" where
  "accumulate_rules t [] = t"
| "accumulate_rules t ((reason, sub_addrs) # rule_results) =
     accumulate_rules (accumulate_reasons t sub_addrs reason) rule_results"

text \<open>
  The table that \<^verbatim>\<open>make_feature_changes_email\<close> builds, from the empty
  \<^verbatim>\<open>defaultdict\<close> to the last rule, with the warnings logged on the way.  The warnings
  stay logged when \<^verbatim>\<open>apply_subscription_rules\<close> raises afterwards.
\<close>

definition feature_changes_addr_reasons ::
  "env \<Rightarrow> FeatureEntry \<Rightarrow> change list \<Rightarrow> (error + addr_reasons) \<times> log_entry list" where
  "feature_changes_addr_reasons e fe changes =
     (let watchers = filter watching_all_features (FeatureOwner_fetch e);
          watcher_emails = map FeatureOwner.email watchers;
          t = [];
          t = add_core_receivers fe t;
          t = accumulate_reasons t watcher_emails ''You are watching all feature changes'';
          (t, lg) = add_component_receivers e (blink_components fe) (t, []);
          starrers = get_feature_starrers e (key_integer_id fe);
          starrer_emails = map UserPref.email starrers;
          t = accumulate_reasons t starrer_emails ''You starred this feature''
      in case apply_subscription_rules e fe changes of
           Inl err \<Rightarrow> (Inl err, lg)
         | Inr rule_results \<Rightarrow> (Inr (accumulate_rules t rule_results), lg))"

text \<open>
  \<^verbatim>\<open>make_feature_changes_email(fe, is_update=False, changes=None)\<close> returns the list
  of tasks, or the error it raised, together with the warnings it logged.  The body is
  formatted before the table is built, so an error of \<^verbatim>\<open>format_email_body\<close> comes
  first.
\<close>

definition make_feature_changes_email ::
  "env \<Rightarrow> FeatureEntry \<Rightarrow> bool \<Rightarrow> change list option
     \<Rightarrow> (error + email_task list) \<times> log_entry list" where
  "make_feature_changes_email e fe is_update changes_arg =
     (let changes = (case changes_arg of None \<Rightarrow> [] | Some cs \<Rightarrow> cs);
          (subj, triggering_user_email, template_path) =
            (if is_update
             then (''updated feature: '' @ FeatureEntry.name fe, updater_email fe,
                   ''update-feature-email.html'')
             else (''new feature: '' @ FeatureEntry.name fe, creator_email fe,
                   ''new-feature-email.html''))
      in case format_email_body e template_path fe changes None of
           Inl err \<Rightarrow> (Inl err, [])
         | Inr email_html \<Rightarrow>
             (case feature_changes_addr_reasons e fe changes of
                (Inl err, lg) \<Rightarrow> (Inl err, lg)
              | (Inr t, lg) \<Rightarrow>
                  (all_tasks (settings e) (can_create_feature e) t email_html subj
                     triggering_user_email, lg)))"

subsection \<open>Recipients of reviews and comments\<close>

definition add_reviewers :: "env \<Rightarrow> FeatureEntry \<Rightarrow> int \<Rightarrow> addr_reasons \<Rightarrow> addr_reasons" where
  "add_reviewers e fe gt t =
     (let gate = get_gate_by_type e (key_integer_id fe) gt;
          (recipients, reasons) =
            (case gate of
               None \<Rightarrow> (get_approvers e gt, ''You are a reviewer for this type of gate'')
             | Some g \<Rightarrow>
                 if assignee_emails g \<noteq> []
                 then (assignee_emails g, ''This review is assigned to you'')
                 else (get_approvers e gt, ''You are a reviewer for this type of gate''))
      in accumulate_reasons t recipients reasons)"

definition make_review_requests_email ::
  "env \<Rightarrow> FeatureEntry \<Rightarrow> int \<Rightarrow> change list option \<Rightarrow> error + email_task list" where
  "make_review_requests_email e fe gt changes_arg =
     (let changes = (case changes_arg of None \<Rightarrow> [] | Some cs \<Rightarrow> cs)
      in case format_email_body e ''update-feature-email.html'' fe changes None of
           Inl err \<Rightarrow> Inl err
         | Inr email_html \<Rightarrow>
             let subj = ''Review Request for feature: '' @ FeatureEntry.name fe;
                 triggering_user_email = updater_email fe;
                 t = add_reviewers e fe gt []
             in all_tasks (settings e) (can_create_feature e) t email_html subj
                  triggering_user_email)"

text \<open>
  \<^verbatim>\<open>', '.join(assignees) or 'None'\<close>, for the change that
  \<^verbatim>\<open>make_review_assignment_email\<close> reports.  That function also reads the approvers of
  the gate type and a reason string into two locals that it never uses; the model leaves
  both out.
\<close>

definition joined_or_None :: "string list \<Rightarrow> string" where
  "joined_or_None assignees =
     (let joined = join '', '' assignees in if joined = [] then ''None'' else joined)"

definition make_review_assignment_email ::
  "env \<Rightarrow> FeatureEntry \<Rightarrow> int \<Rightarrow> string \<Rightarrow> string list \<Rightarrow> string list
     \<Rightarrow> error + email_task list" where
  "make_review_assignment_email e fe gt triggering_user_email old_assignees new_assignees =
     (let change = \<lparr> prop_name = ''Assigned reiewer'',
                     old_val = joined_or_None old_assignees,
                     new_val = joined_or_None new_assignees \<rparr>
      in case format_email_body e ''update-feature-email.html'' fe [change]
                (Some triggering_user_email) of
           Inl err \<Rightarrow> Inl err
         | Inr email_html \<Rightarrow>
             let subj = ''Review assigned for feature: '' @ FeatureEntry.name fe;
                 t = accumulate_reasons [] old_assignees
                       ''The review was previously assigned to you'';
                 t = accumulate_reasons t new_assignees
                       ''The review is now assigned to you''
             in all_tasks (settings e) (can_create_feature e) t email_html subj
                  (Some triggering_user_email))"

definition make_new_comments_email ::
  "env \<Rightarrow> FeatureEntry \<Rightarrow> int \<Rightarrow> change list option \<Rightarrow> error + email_task list" where
  "make_new_comments_email e fe gt changes_arg =
     (let changes = (case changes_arg of None \<Rightarrow> [] | Some cs \<Rightarrow> cs)
      in case format_email_body e ''update-feature-email.html'' fe changes None of
           Inl err \<Rightarrow> Inl err
         | Inr email_html \<Rightarrow>
             let subj = ''New comments for feature: '' @ FeatureEntry.name fe;
                 triggering_user_email = updater_email fe;
                 t = add_core_receivers fe [];
                 t = add_reviewers e fe gt t
             in all_tasks (settings e) (can_create_feature e) t email_html subj
                  triggering_user_email)"

subsection \<open>Sending\<close>

text \<open>
  What leaves the notifier: the tasks handed to
  \<^verbatim>\<open>cloud_tasks_helpers.enqueue_task\<close>, each with its endpoint, and the log.
\<close>

record outbox =
  enqueued :: "(string \<times> email_task) list"
  logged :: "log_entry list"

definition logging :: "level \<Rightarrow> string \<Rightarrow> outbox \<Rightarrow> outbox" where
  "logging lv msg ob = ob\<lparr>logged := logged ob @ [(lv, msg)]\<rparr>"

text \<open>\<^verbatim>\<open>'%s' % v\<close> for an optional string.\<close>

definition str_of :: "string option \<Rightarrow> string" where
  "str_of v = (case v of None \<Rightarrow> ''None'' | Some s \<Rightarrow> s)"

text \<open>\<^verbatim>\<open>task.get(key, None)\<close> for the keys that only one kind of task has.\<close>

definition get_from_user :: "email_task \<Rightarrow> string option" where
  "get_from_user task =
     (case task of Email_Task _ _ _ _ \<Rightarrow> None | Comment_Task _ fu _ _ _ \<Rightarrow> Some fu)"

definition get_references :: "email_task \<Rightarrow> string option" where
  "get_references task =
     (case task of Email_Task _ _ _ _ \<Rightarrow> None | Comment_Task _ _ refs _ _ \<Rightarrow> refs)"

definition get_reply_to :: "email_task \<Rightarrow> string option" where
  "get_reply_to task =
     (case task of Email_Task _ _ rt _ \<Rightarrow> rt | Comment_Task _ _ _ _ _ \<Rightarrow> None)"

definition would_send :: "env \<Rightarrow> email_task \<Rightarrow> string" where
  "would_send e task =
     ''Would send the following email:'' @ newline
     @ ''To: '' @ to task @ newline
     @ ''From: '' @ str_of (get_from_user task) @ newline
     @ ''References: '' @ str_of (get_references task) @ newline
     @ ''Reply-To: '' @ str_of (get_reply_to task) @ newline
     @ ''Subject: '' @ subject task @ newline
     @ ''Body:'' @ newline @ take (MAX_LOG_LINE e) (html task)"

fun send_each :: "env \<Rightarrow> email_task list \<Rightarrow> outbox \<Rightarrow> outbox" where
  "send_each e [] ob = ob"
| "send_each e (task # tasks) ob =
     send_each e tasks
       (if SEND_EMAIL (settings e)
        then ob\<lparr>enqueued := enqueued ob @ [(''/tasks/outbound-email'', task)]\<rparr>
        else logging INFO (would_send e task) ob)"

definition send_emails :: "env \<Rightarrow> email_task list \<Rightarrow> outbox \<Rightarrow> outbox" where
  "send_emails e email_tasks ob =
     send_each e email_tasks
       (logging INFO (''Processing '' @ str_nat (length email_tasks) @ '' email tasks'') ob)"

subsection \<open>The handler of feature changes\<close>

text \<open>
  The JSON payload of a task of \<^verbatim>\<open>/tasks/email-subscribers\<close>, as the handler reads it
  through \<^verbatim>\<open>basehandlers\<close>: whether the request carries the task-queue header
  (\<^verbatim>\<open>require_task_header\<close> aborts with 403 without it), the required parameter
  \<^verbatim>\<open>feature\<close> (\<^verbatim>\<open>get_param\<close> aborts with 400 without it), the boolean
  \<^verbatim>\<open>is_update\<close> and the optional list \<^verbatim>\<open>changes\<close>.
\<close>

record feature_json =
  json_id :: int
  json_repr :: string

record post_data =
  task_header :: bool
  param_feature :: "feature_json option"
  param_is_update :: bool
  param_changes :: "change list option"

text \<open>\<^verbatim>\<open>FeatureChangeHandler.process_post_data\<close>\<close>

definition process_post_data :: "env \<Rightarrow> post_data \<Rightarrow> outbox \<Rightarrow> (error + string) \<times> outbox" where
  "process_post_data e req ob =
     (if \<not> task_header req then (Inl (Abort 403), ob)
      else case param_feature req of
        None \<Rightarrow> (Inl (Abort 400), ob)
      | Some feature \<Rightarrow>
          let is_update = param_is_update req;
              changes = (case param_changes req of None \<Rightarrow> [] | Some cs \<Rightarrow> cs);
              ob = logging INFO (''Starting to notify subscribers for feature ''
                     @ take (MAX_LOG_LINE e) (json_repr feature)) ob
          in (case FeatureEntry_get_by_id e (json_id feature) of
                None \<Rightarrow> (Inr ''Done'', ob)
              | Some fe \<Rightarrow>
                  if (is_update \<and> length changes \<noteq> 0) \<or> \<not> is_update
                  then (case make_feature_changes_email e fe is_update (Some changes) of
                          (Inl err, lg) \<Rightarrow> (Inl err, ob\<lparr>logged := logged ob @ lg\<rparr>)
                        | (Inr email_tasks, lg) \<Rightarrow>
                            (Inr ''Done'',
                             send_emails e email_tasks (ob\<lparr>logged := logged ob @ lg\<rparr>)))
                  else (Inr ''Done'', ob)))"

subsection \<open>Posting a review comment to the mailing list\<close>

definition BLINK_DEV_ARCHIVE_URL_PREFIX :: string where
  "BLINK_DEV_ARCHIVE_URL_PREFIX = ''https://groups.google.com/a/chromium.org/d/msgid/blink-dev/''"

definition TEST_ARCHIVE_URL_PREFIX :: string where
  "TEST_ARCHIVE_URL_PREFIX = ''https://groups.google.com/d/msgid/jrobbins-test/''"

text \<open>\<^verbatim>\<open>s.startswith(p)\<close> and \<^verbatim>\<open>s.split(c)[0]\<close>\<close>

definition startswith :: "string \<Rightarrow> string \<Rightarrow> bool" where
  "startswith s p = (take (length p) s = p)"

definition split_first :: "char \<Rightarrow> string \<Rightarrow> string" where
  "split_first c s = takeWhile (\<lambda>x. x \<noteq> c) s"

definition generate_thread_subject :: "env \<Rightarrow> FeatureEntry \<Rightarrow> approval_field \<Rightarrow> string" where
  "generate_thread_subject e feature af =
     (let intent_phrase = approval_field.name af;
          intent_phrase =
            (if feature_type feature = FEATURE_TYPE_DEPRECATION_ID e
             then
               let p = (if af = PrototypeApproval e
                        then ''Intent to Deprecate and Remove'' else intent_phrase);
                   p = (if af = ExperimentApproval e
                        then ''Request for Deprecation Trial'' else p);
                   p = (if af = ExtendExperimentApproval e
                        then ''Intent to Extend Deprecation Trial'' else p)
               in p
             else intent_phrase)
      in intent_phrase @ '': '' @ FeatureEntry.name feature)"

definition get_thread_id :: "env \<Rightarrow> Stage \<Rightarrow> string option" where
  "get_thread_id e stage =
     (case intent_thread_url stage of
        None \<Rightarrow> None
      | Some thread_url \<Rightarrow>
          let thread_url = split_first (CHR ''#'') thread_url;
              thread_url = split_first (CHR ''?'') thread_url;
              thread_url = unquote e thread_url;
              thread_id = None;
              thread_id =
                (if startswith thread_url BLINK_DEV_ARCHIVE_URL_PREFIX
                 then Some (drop (length BLINK_DEV_ARCHIVE_URL_PREFIX) thread_url)
                 else thread_id);
              thread_id =
                (if startswith thread_url TEST_ARCHIVE_URL_PREFIX
                 then Some (drop (length TEST_ARCHIVE_URL_PREFIX) thread_url)
                 else thread_id)
          in thread_id)"

text \<open>
  \<^verbatim>\<open>post_comment_to_mailing_list(feature, gate_id, approval_field_id, author_addr,
  comment_content)\<close>.  The result pairs what the call returned or raised with the outbox
  it left behind.
\<close>

definition post_comment_to_mailing_list ::
  "env \<Rightarrow> FeatureEntry \<Rightarrow> int \<Rightarrow> int \<Rightarrow> string \<Rightarrow> string \<Rightarrow> outbox
     \<Rightarrow> (error + unit) \<times> outbox" where
  "post_comment_to_mailing_list e feature gate_id approval_field_id author_addr
       comment_content ob =
     (let to_addr = REVIEW_COMMENT_MAILING_LIST (settings e);
          from_user = split_first (CHR ''@'') author_addr
      in case APPROVAL_FIELDS_BY_ID e approval_field_id of
           None \<Rightarrow> (Inl (KeyError ''APPROVAL_FIELDS_BY_ID''), ob)
         | Some af \<Rightarrow>
             let gate = Gate_get_by_id e gate_id;
                 stage = (case gate of None \<Rightarrow> None | Some g \<Rightarrow> Stage_get_by_id e (stage_id g))
             in (case stage of
                  None \<Rightarrow>
                    (Inl (ValueError ''No matching Stage entity found for given Gate ID.''), ob)
                | Some stage \<Rightarrow>
                    let subj = (case intent_subject_line stage of
                                  None \<Rightarrow> generate_thread_subject e feature af
                                | Some s \<Rightarrow> s);
                        subj = (if \<not> startswith subj ''Re: '' then ''Re: '' @ subj else subj);
                        references = (case get_thread_id e stage of
                                        None \<Rightarrow> None
                                      | Some thread_id \<Rightarrow>
                                          if thread_id \<noteq> []
                                          then Some (''<'' @ thread_id @ ''>'') else None);
                        html = render_comment_template e ''review-comment-email.html''
                                 comment_content;
                        email_task = Comment_Task to_addr from_user references subj html
                    in (Inr (), send_emails e [email_task] ob)))"

subsection \<open>The contributions of the recipient categories\<close>

text \<open>
  The specification describes the table of a feature change by its content: the reasons
  of an address are the union of what each category contributes to it.  The categories,
  each with its addresses and its reason, are the owners, the editors, the CC'd
  addresses, the devrel contacts, the watchers of all features, the owners and the
  subscribers of every component of the feature that is stored, the starrers, and the
  subscription rules that match.  This list is the specification's side of the
  comparison with \<open>feature_changes_addr_reasons\<close>.
\<close>

definition component_contributions :: "env \<Rightarrow> string \<Rightarrow> (string list \<times> string) list" where
  "component_contributions e component_name =
     (case BlinkComponent_get_by_name e component_name of
        None \<Rightarrow> []
      | Some component \<Rightarrow>
          [(map FeatureOwner.email (owners component),
              ''You are an owner of this feature's component''),
           (map FeatureOwner.email (subscribers component),
              ''You subscribe to this feature's component'')])"

definition category_contributions ::
  "env \<Rightarrow> FeatureEntry \<Rightarrow> (string \<times> string list) list \<Rightarrow> (string list \<times> string) list" where
  "category_contributions e fe rule_results =
     [(owner_emails fe, ''You are listed as an owner of this feature''),
      (editor_emails fe, ''You are listed as an editor of this feature''),
      (cc_emails fe, ''You are CC'd on this feature''),
      (devrel_emails fe, ''You are a devrel contact for this feature.''),
      (map FeatureOwner.email (filter watching_all_features (FeatureOwner_fetch e)),
         ''You are watching all feature changes'')]
     @ concat (map (component_contributions e) (blink_components fe))
     @ [(map UserPref.email (get_feature_starrers e (key_integer_id fe)),
         ''You starred this feature'')]
     @ map (\<lambda>(reason, sub_addrs). (sub_addrs, reason)) rule_results"

text \<open>What a list of contributions gives one address: every reason once per occurrence
  of the address in the addresses of the contribution.\<close>

definition contributed :: "(string list \<times> string) list \<Rightarrow> string \<Rightarrow> string list" where
  "contributed cs addr =
     concat (map (\<lambda>(addr_list, reason). replicate (count_list addr_list addr) reason) cs)"

definition recipients :: "(string list \<times> string) list \<Rightarrow> string set" where
  "recipients cs = \<Union> (set (map (\<lambda>(addr_list, reason). set addr_list) cs))"

text \<open>The warning logged for a component name that is not stored.\<close>

definition component_warning :: "string \<Rightarrow> log_entry" where
  "component_warning component_name =
     (WARNING, ''Blink component \"'' @ component_name
        @ ''\" not found.Not sending email to subscribers'')"

text \<open>
  A reason-accumulation sequence: the calls \<^verbatim>\<open>accumulate_reasons(table, addr_list,
  reason)\<close> made one after the other on the same table.
\<close>

abbreviation accumulate_calls ::
  "addr_reasons \<Rightarrow> (string list \<times> string) list \<Rightarrow> addr_reasons" where
  "accumulate_calls t cs \<equiv>
     foldl (\<lambda>t (addr_list, reason). accumulate_reasons t addr_list reason) t cs"

text \<open>
  Two contributions are the same when they give the same reason to the same addresses,
  each address as often in one as in the other: the order of the addresses, which is the
  order in which the datastore returned the rows, is left aside.
\<close>

abbreviation same_contribution :: "string list \<times> string \<Rightarrow> string list \<times> string \<Rightarrow> bool" where
  "same_contribution \<equiv> (\<lambda>(addr_list, reason) (addr_list', reason').
      mset addr_list = mset addr_list' \<and> reason = reason')"

subsection \<open>The fixture of the repository's tests\<close>

text \<open>
  The entities that \<^verbatim>\<open>EmailFormattingTest.setUp\<close> of
  \<^verbatim>\<open>internals/notifier_test.py\<close> stores: a feature with an owner, two editors, a
  CC'd address and a devrel contact, of the component \<^verbatim>\<open>Blink\<close>; an origin-trial
  stage and a shipping stage; the component with one owner; one watcher of all features.
  The tests set the milestones of the shipping stage, so they are a parameter here.
  The constants and tables of \<^verbatim>\<open>core_enums\<close> and \<^verbatim>\<open>approval_defs\<close> take sample
  values, and the template engine returns the body that the tests mock.
\<close>

definition test_settings :: settings where
  "test_settings =
     \<lparr> SITE_URL = ''http://127.0.0.1:7777/'', SEND_EMAIL = True,
       REVIEW_COMMENT_MAILING_LIST = ''jrobbins-test@googlegroups.com'' \<rparr>"

definition fe_1 :: FeatureEntry where
  "fe_1 =
     \<lparr> key_integer_id = 1, name = ''feature one'', category = 1, feature_type = 0,
       impl_status_chrome = 1,
       owner_emails = [''feature_owner@example.com''],
       editor_emails = [''feature_editor@example.com'', ''owner_1@example.com''],
       cc_emails = [''cc@example.com''],
       devrel_emails = [''devrel1@gmail.com''],
       creator_email = Some ''creator1@gmail.com'',
       updater_email = Some ''editor1@gmail.com'',
       blink_components = [''Blink''],
       doc_links = [] \<rparr>"

definition ot_stage :: Stage where
  "ot_stage =
     \<lparr> stage_type = 150,
       milestones = Some \<lparr> desktop_first = Some 100, android_first = None,
                           webview_first = None \<rparr>,
       intent_thread_url = None, intent_subject_line = None \<rparr>"

definition ship_stage :: "MilestoneSet \<Rightarrow> Stage" where
  "ship_stage ms =
     \<lparr> stage_type = 160, milestones = Some ms,
       intent_thread_url = None, intent_subject_line = None \<rparr>"

definition component_owner_1 :: FeatureOwner where
  "component_owner_1 =
     \<lparr> FeatureOwner.email = ''owner_1@example.com'', watching_all_features = False \<rparr>"

definition watcher_1 :: FeatureOwner where
  "watcher_1 =
     \<lparr> FeatureOwner.email = ''watcher_1@example.com'', watching_all_features = True \<rparr>"

definition test_approval :: approval_field where
  "test_approval = \<lparr> approval_field.name = ''Intent to Ship'', field_id = 4 \<rparr>"

definition test_env :: "MilestoneSet \<Rightarrow> env" where
  "test_env ms =
     \<lparr> settings = test_settings,
       MAX_LOG_LINE = 200,
       IWA = 25,
       FEATURE_TYPE_DEPRECATION_ID = 3,
       STAGE_TYPES_SHIPPING = [0 \<mapsto> Some 160, 1 \<mapsto> Some 260, 2 \<mapsto> Some 360, 3 \<mapsto> Some 460],
       IMPLEMENTATION_STATUS = [1 \<mapsto> ''No active development''],
       APPROVAL_FIELDS_BY_ID = [4 \<mapsto> test_approval],
       PrototypeApproval = \<lparr> approval_field.name = ''Intent to Prototype'', field_id = 1 \<rparr>,
       ExperimentApproval = \<lparr> approval_field.name = ''Intent to Experiment'', field_id = 2 \<rparr>,
       ExtendExperimentApproval =
         \<lparr> approval_field.name = ''Intent to Extend Experiment'', field_id = 3 \<rparr>,
       get_approvers = (\<lambda>gt. [''approver1@example.com'', ''approver2@example.com'']),
       get_gate_by_type = (\<lambda>fid gt. None),
       can_create_feature = (\<lambda>addr. addr = ''user@chromium.org''),
       get_feature_stages =
         (\<lambda>fid. if fid = 1 then [150 \<mapsto> [ot_stage], 160 \<mapsto> [ship_stage ms]] else Map.empty),
       get_stage_info_for_templates =
         (\<lambda>fe. \<lparr> ship_stages = [ship_stage ms], should_render_mstone_table = False \<rparr>),
       FeatureEntry_get_by_id = [1 \<mapsto> fe_1],
       Gate_get_by_id = Map.empty,
       Stage_get_by_id = Map.empty,
       FeatureOwner_fetch = [component_owner_1, watcher_1],
       BlinkComponent_get_by_name =
         [''Blink'' \<mapsto> \<lparr> owners = [component_owner_1], subscribers = [] \<rparr>],
       FeatureStar_fetch = [],
       get_prefs_for_emails =
         map (\<lambda>addr. \<lparr> UserPref.email = addr, notify_as_starrer = True, bounced = False \<rparr>),
       urlparse_hostname =
         (\<lambda>link. if link = ''http://[bad'' then Malformed ''Invalid IPv6 URL''
                  else if link = ''https://developer.mozilla.org/look-here''
                  then Hostname (Some ''developer.mozilla.org'')
                  else Hostname None),
       unquote = (\<lambda>url. url),
       escape = (\<lambda>text. text),
       render_template = (\<lambda>template_path data. ''mock body html''),
       render_comment_template = (\<lambda>template_path comment_content. comment_content) \<rparr>"

section \<open>Properties\<close>

subsection \<open>One append, one accumulation, a sequence of accumulations\<close>

lemma map_of_append_reason:
  "map_of (append_reason t a r) = (map_of t)(a \<mapsto> reasons_of t a @ [r])"
  by (induction t a r rule: append_reason.induct) (auto simp: reasons_of_def fun_eq_iff)

lemma reasons_of_append_reason:
  "reasons_of (append_reason t a r) b = (if b = a then reasons_of t a @ [r] else reasons_of t b)"
  by (simp add: reasons_of_def map_of_append_reason)

lemma keys_append_reason: "fst ` set (append_reason t a r) = insert a (fst ` set t)"
  by (induction t a r rule: append_reason.induct) auto

lemma distinct_append_reason:
  "distinct (map fst t) \<Longrightarrow> distinct (map fst (append_reason t a r))"
proof (induction t a r rule: append_reason.induct)
  case (1 email reason)
  then show ?case by simp
next
  case (2 k rs t email reason)
  then show ?case using keys_append_reason[of t email reason] by (auto simp: image_iff)
qed

lemma nonempty_append_reason:
  "[] \<notin> set (map snd t) \<Longrightarrow> [] \<notin> set (map snd (append_reason t a r))"
  by (induction t a r rule: append_reason.induct) auto

lemma map_of_accumulate_reasons:
  "map_of (accumulate_reasons t addr_list reason) addr =
     (if addr \<in> set addr_list
      then Some (reasons_of t addr @ replicate (count_list addr_list addr) reason)
      else map_of t addr)"
proof (induction addr_list arbitrary: t)
  case Nil
  then show ?case by simp
next
  case (Cons a addr_list)
  show ?case
    by (simp add: Cons.IH map_of_append_reason reasons_of_append_reason replicate_append_same)
qed

lemma reasons_of_accumulate_reasons:
  "reasons_of (accumulate_reasons t addr_list reason) addr =
     reasons_of t addr @ replicate (count_list addr_list addr) reason"
  by (simp add: reasons_of_def[of "accumulate_reasons t addr_list reason"] map_of_accumulate_reasons)
     (simp add: reasons_of_def count_list_0_iff)

lemma keys_accumulate_reasons:
  "fst ` set (accumulate_reasons t addr_list reason) = fst ` set t \<union> set addr_list"
  by (induction addr_list arbitrary: t) (auto simp: keys_append_reason)

lemma distinct_accumulate_reasons:
  "distinct (map fst t) \<Longrightarrow> distinct (map fst (accumulate_reasons t addr_list reason))"
  by (induction addr_list arbitrary: t) (auto simp: distinct_append_reason)

lemma nonempty_accumulate_reasons:
  "[] \<notin> set (map snd t) \<Longrightarrow> [] \<notin> set (map snd (accumulate_reasons t addr_list reason))"
proof (induction addr_list arbitrary: t)
  case Nil
  then show ?case by simp
next
  case (Cons a addr_list)
  from Cons.prems have "[] \<notin> set (map snd (append_reason t a reason))"
    by (rule nonempty_append_reason)
  then show ?case using Cons.IH by simp
qed


lemma reasons_of_accumulate_calls:
  "reasons_of (accumulate_calls t cs) addr = reasons_of t addr @ contributed cs addr"
  by (induction cs arbitrary: t) (auto simp: contributed_def reasons_of_accumulate_reasons)

lemma keys_accumulate_calls:
  "fst ` set (accumulate_calls t cs) = fst ` set t \<union> recipients cs"
proof (induction cs arbitrary: t)
  case Nil
  then show ?case by (simp add: recipients_def)
next
  case (Cons c cs)
  obtain addr_list reason where c: "c = (addr_list, reason)" by (cases c)
  have r: "recipients (c # cs) = set addr_list \<union> recipients cs"
    by (simp add: recipients_def c)
  have "fst ` set (accumulate_calls (accumulate_reasons t addr_list reason) cs) =
          fst ` set (accumulate_reasons t addr_list reason) \<union> recipients cs"
    by (rule Cons.IH)
  then show ?case
    by (simp add: c r[unfolded c] keys_accumulate_reasons Un_assoc)
qed

lemma distinct_accumulate_calls:
  "distinct (map fst t) \<Longrightarrow> distinct (map fst (accumulate_calls t cs))"
  by (induction cs arbitrary: t) (auto simp: distinct_accumulate_reasons)

lemma nonempty_accumulate_calls:
  "[] \<notin> set (map snd t) \<Longrightarrow> [] \<notin> set (map snd (accumulate_calls t cs))"
proof (induction cs arbitrary: t)
  case Nil
  then show ?case by simp
next
  case (Cons c cs)
  obtain addr_list reason where c: "c = (addr_list, reason)" by (cases c)
  from Cons.prems have "[] \<notin> set (map snd (accumulate_reasons t addr_list reason))"
    by (rule nonempty_accumulate_reasons)
  then show ?case using Cons.IH c by simp
qed

lemma accumulate_calls_append:
  "accumulate_calls t (cs @ ds) = accumulate_calls (accumulate_calls t cs) ds"
  by simp

lemma add_core_receivers_calls:
  "add_core_receivers fe t = accumulate_calls t
     [(owner_emails fe, ''You are listed as an owner of this feature''),
      (editor_emails fe, ''You are listed as an editor of this feature''),
      (cc_emails fe, ''You are CC'd on this feature''),
      (devrel_emails fe, ''You are a devrel contact for this feature.'')]"
  by (simp add: add_core_receivers_def)

lemma add_component_receivers_calls:
  "add_component_receivers e names (t, lg) =
     (accumulate_calls t (concat (map (component_contributions e) names)),
      lg @ map component_warning (filter (\<lambda>n. BlinkComponent_get_by_name e n = None) names))"
  by (induction names arbitrary: t lg)
     (auto simp: component_contributions_def component_warning_def Let_def split: option.splits)

lemma accumulate_rules_calls:
  "accumulate_rules t rule_results =
     accumulate_calls t (map (\<lambda>(reason, sub_addrs). (sub_addrs, reason)) rule_results)"
  by (induction t rule_results rule: accumulate_rules.induct) auto

lemma feature_changes_addr_reasons_calls:
  "feature_changes_addr_reasons e fe changes =
     ((case apply_subscription_rules e fe changes of
         Inl err \<Rightarrow> Inl err
       | Inr rule_results \<Rightarrow> Inr (accumulate_calls [] (category_contributions e fe rule_results))),
      map component_warning
        (filter (\<lambda>n. BlinkComponent_get_by_name e n = None) (blink_components fe)))"
  by (simp add: feature_changes_addr_reasons_def category_contributions_def Let_def
        add_core_receivers_calls add_component_receivers_calls accumulate_rules_calls
      split: sum.splits)

subsection \<open>Converting a table into tasks\<close>

lemma collect_Inr:
  "(\<And>x. x \<in> set xs \<Longrightarrow> f x = Inr (g x)) \<Longrightarrow> collect f xs = Inr (map g xs)"
  by (induction xs) auto

lemma collect_Inl:
  "collect f xs = Inl err \<Longrightarrow> \<exists>x \<in> set xs. f x = Inl err"
  by (induction xs) (auto split: sum.splits)

lemma collect_fails:
  "x \<in> set xs \<Longrightarrow> f x = Inl err \<Longrightarrow> \<exists>err'. collect f xs = Inl err'"
  by (induction xs) (auto split: sum.splits)

lemma convert_reasons_to_task_Inl:
  "convert_reasons_to_task st ccf addr reasons email_html subj trig = Inl err \<Longrightarrow>
     reasons = [] \<and> err = AssertionError ''We are emailing someone without any reason''"
  by (auto simp: convert_reasons_to_task_def Let_def split: if_splits)

lemma all_tasks_nonempty:
  assumes "[] \<notin> set (map snd t)"
  shows "all_tasks st ccf t email_html subj trig =
     Inr (map (\<lambda>(addr, reasons).
            Email_Task addr subj (if ccf addr then trig else None)
              (email_html @ newline @ newline @ join newline (footer_lines st reasons)))
          (sort t))"
  unfolding all_tasks_def
proof (rule collect_Inr)
  fix x assume "x \<in> set (sort t)"
  then have "x \<in> set t" by simp
  then have "snd x \<in> set (map snd t)" by simp
  with assms have "snd x \<noteq> []" by metis
  then show "(case x of (addr, reasons) \<Rightarrow>
            convert_reasons_to_task st ccf addr reasons email_html subj trig) =
         Inr (case x of (addr, reasons) \<Rightarrow>
            Email_Task addr subj (if ccf addr then trig else None)
              (email_html @ newline @ newline @ join newline (footer_lines st reasons)))"
    by (cases x) (simp add: convert_reasons_to_task_def Let_def)
qed

lemma all_tasks_empty_reason:
  assumes "(addr, []) \<in> set t"
  shows "all_tasks st ccf t email_html subj trig =
           Inl (AssertionError ''We are emailing someone without any reason'')"
proof -
  let ?f = "\<lambda>(addr, reasons). convert_reasons_to_task st ccf addr reasons email_html subj trig"
  have m: "(addr, []) \<in> set (sort t)" using assms by simp
  have f: "?f (addr, []) = Inl (AssertionError ''We are emailing someone without any reason'')"
    by (simp add: convert_reasons_to_task_def)
  obtain err where e: "collect ?f (sort t) = Inl err"
    using collect_fails[of "(addr, [])" "sort t" ?f, OF m f] by (rule exE)
  obtain x where x: "x \<in> set (sort t)" "?f x = Inl err"
    using collect_Inl[of ?f "sort t" err, OF e] by (rule bexE)
  obtain a rs where "x = (a, rs)" by (cases x)
  with x(2) have "convert_reasons_to_task st ccf a rs email_html subj trig = Inl err" by simp
  then have "err = AssertionError ''We are emailing someone without any reason''"
    by (simp add: convert_reasons_to_task_Inl)
  with e show ?thesis by (simp add: all_tasks_def)
qed

lemma sorted_map_fst:
  fixes xs :: "(string \<times> string list) list"
  shows "sorted xs \<Longrightarrow> sorted (map fst xs)"
  by (induction xs) (auto simp: less_eq_prod_def)

lemma map_fst_sort:
  fixes t :: "(string \<times> string list) list"
  assumes "distinct (map fst t)"
  shows "map fst (sort t) = sorted_list_of_set (fst ` set t)"
proof -
  have "mset (map fst (sort t)) = mset (map fst t)" by simp
  then have d: "distinct (map fst (sort t))" using assms mset_eq_imp_distinct_iff by blast
  have s: "sorted (map fst (sort t))" by (rule sorted_map_fst) simp
  have "set (map fst (sort t)) = fst ` set t" by simp
  have "sorted_list_of_set (set (map fst (sort t))) = map fst (sort t)"
    using s d by (rule sorted_list_of_set.idem_if_sorted_distinct)
  then show ?thesis by simp
qed

subsection \<open>The contract of \<open>accumulate_reasons\<close>\<close>

text \<open>
  Claim C2.  For every table, every list of addresses and every reason,
  \<open>accumulate_reasons\<close> appends the reason to the entry of each address of the list,
  once per occurrence of the address in the list; an address that had no entry gets one,
  which holds the reason alone when the address occurs once; the entry of an address that
  is not in the list is what it was, and an address without an entry stays without one.
\<close>

theorem accumulate_reasons_contract:
  "(addr \<in> set addr_list \<longrightarrow>
      map_of (accumulate_reasons t addr_list reason) addr =
        Some (reasons_of t addr @ replicate (count_list addr_list addr) reason))
   \<and> (addr \<in> set addr_list \<and> map_of t addr = None \<and> count_list addr_list addr = 1 \<longrightarrow>
      map_of (accumulate_reasons t addr_list reason) addr = Some [reason])
   \<and> (addr \<notin> set addr_list \<longrightarrow>
      map_of (accumulate_reasons t addr_list reason) addr = map_of t addr)"
  by (simp add: map_of_accumulate_reasons reasons_of_def)

theorem accumulate_reasons_contract_witness:
  "map_of (accumulate_reasons [(''owner_1@example.com'', [''a reason''])]
       [''owner_1@example.com'', ''watcher_1@example.com''] ''another reason'')
     ''owner_1@example.com'' = Some [''a reason'', ''another reason'']
   \<and> map_of (accumulate_reasons [(''owner_1@example.com'', [''a reason''])]
       [''owner_1@example.com'', ''watcher_1@example.com''] ''another reason'')
     ''watcher_1@example.com'' = Some [''another reason'']
   \<and> map_of (accumulate_reasons [(''owner_1@example.com'', [''a reason''])]
       [''watcher_1@example.com''] ''another reason'')
     ''owner_1@example.com'' = Some [''a reason'']"
  using
    accumulate_reasons_contract [of "''owner_1@example.com''"
      "[''owner_1@example.com'', ''watcher_1@example.com'']"
      "[(''owner_1@example.com'', [''a reason''])]" "''another reason''"]
    accumulate_reasons_contract [of "''watcher_1@example.com''"
      "[''owner_1@example.com'', ''watcher_1@example.com'']"
      "[(''owner_1@example.com'', [''a reason''])]" "''another reason''"]
    accumulate_reasons_contract [of "''owner_1@example.com''"
      "[''watcher_1@example.com'']"
      "[(''owner_1@example.com'', [''a reason''])]" "''another reason''"]
  by (simp add: reasons_of_def)

subsection \<open>The footer of a task\<close>

lemma sorted_set_eq: "sorted_set reasons = sorted_list_of_set (set reasons)"
  by (simp add: sorted_set_def sorted_list_of_set_sort_remdups)

text \<open>
  Claim C3.  For a non-empty list of reasons, \<open>convert_reasons_to_task\<close> returns a task
  whose HTML is the body, an empty line, and the footer: the opening lines, one list item
  for each distinct reason in ascending order, the closing line and the unsubscribe link.
  Two lists with the same set of reasons give the same task, whatever the order and the
  multiplicity of the reasons in them.
\<close>

theorem footer_lists_distinct_sorted_reasons:
  "reasons \<noteq> [] \<longrightarrow>
     convert_reasons_to_task st ccf addr reasons email_html subj trig =
       Inr (Email_Task addr subj (if ccf addr then trig else None)
         (email_html @ newline @ newline @ join newline
           ([''<p>You are receiving this email because:</p>'', ''<ul>'']
            @ map (\<lambda>reason. ''<li>'' @ reason @ ''</li>'') (sorted_list_of_set (set reasons))
            @ [''</ul>'', ''<p><a href=\"'' @ SITE_URL st @ ''settings\">Unsubscribe</a></p>''])))
     \<and> (\<forall>reasons'. set reasons' = set reasons \<longrightarrow>
           convert_reasons_to_task st ccf addr reasons' email_html subj trig =
           convert_reasons_to_task st ccf addr reasons email_html subj trig)"
proof (intro impI conjI allI)
  assume ne: "reasons \<noteq> []"
  then show "convert_reasons_to_task st ccf addr reasons email_html subj trig =
       Inr (Email_Task addr subj (if ccf addr then trig else None)
         (email_html @ newline @ newline @ join newline
           ([''<p>You are receiving this email because:</p>'', ''<ul>'']
            @ map (\<lambda>reason. ''<li>'' @ reason @ ''</li>'') (sorted_list_of_set (set reasons))
            @ [''</ul>'', ''<p><a href=\"'' @ SITE_URL st @ ''settings\">Unsubscribe</a></p>''])))"
    by (simp add: convert_reasons_to_task_def footer_lines_def sorted_set_eq Let_def)
  fix reasons' :: "string list"
  assume eq: "set reasons' = set reasons"
  with ne have ne': "reasons' \<noteq> []" by auto
  have "footer_lines st reasons' = footer_lines st reasons"
    by (simp add: footer_lines_def sorted_set_eq eq)
  with ne ne' show "convert_reasons_to_task st ccf addr reasons' email_html subj trig =
           convert_reasons_to_task st ccf addr reasons email_html subj trig"
    by (simp add: convert_reasons_to_task_def Let_def)
qed

theorem footer_lists_distinct_sorted_reasons_witness:
  "html (projr (convert_reasons_to_task \<lparr>SITE_URL = ''http://127.0.0.1:7777/'', SEND_EMAIL = False,
        REVIEW_COMMENT_MAILING_LIST = ''list@example.com''\<rparr> (\<lambda>a. False) ''addr''
       [''reason 2'', ''reason 1'', ''reason 2''] ''html'' ''subject'' (Some ''triggerer@example.com'')))
   = ''html'' @ newline @ newline @ ''<p>You are receiving this email because:</p>'' @ newline
     @ ''<ul>'' @ newline @ ''<li>reason 1</li>'' @ newline @ ''<li>reason 2</li>'' @ newline
     @ ''</ul>'' @ newline
     @ ''<p><a href=\"http://127.0.0.1:7777/settings\">Unsubscribe</a></p>''
   \<and> convert_reasons_to_task \<lparr>SITE_URL = ''http://127.0.0.1:7777/'', SEND_EMAIL = False,
        REVIEW_COMMENT_MAILING_LIST = ''list@example.com''\<rparr> (\<lambda>a. False) ''addr''
       [''reason 1'', ''reason 2''] ''html'' ''subject'' (Some ''triggerer@example.com'')
     = convert_reasons_to_task \<lparr>SITE_URL = ''http://127.0.0.1:7777/'', SEND_EMAIL = False,
        REVIEW_COMMENT_MAILING_LIST = ''list@example.com''\<rparr> (\<lambda>a. False) ''addr''
       [''reason 2'', ''reason 1'', ''reason 2''] ''html'' ''subject'' (Some ''triggerer@example.com'')"
  using footer_lists_distinct_sorted_reasons [of "[''reason 2'', ''reason 1'', ''reason 2'']"
    "\<lparr>SITE_URL = ''http://127.0.0.1:7777/'', SEND_EMAIL = False,
        REVIEW_COMMENT_MAILING_LIST = ''list@example.com''\<rparr>" "\<lambda>a. False" "''addr''"
    "''html''" "''subject''" "Some ''triggerer@example.com''"]
  by (simp add: insert_commute)

subsection \<open>No task without a reason\<close>

lemma all_tasks_to:
  assumes "[] \<notin> set (map snd t)"
  shows "\<exists>tasks. all_tasks st ccf t email_html subj trig = Inr tasks
           \<and> map to tasks = map fst (sort t)"
  by (simp add: all_tasks_nonempty[OF assms] o_def split_beta)

lemma all_tasks_never_asserts:
  "[] \<notin> set (map snd t) \<Longrightarrow> all_tasks st ccf t email_html subj trig \<noteq> Inl err"
  by (simp add: all_tasks_nonempty)

lemma moz_links_Inl:
  "moz_links hostname_of links = Inl err \<Longrightarrow> \<exists>msg. err = ValueError msg"
  by (induction links) (auto split: parsed_url.splits sum.splits)

lemma format_email_body_Inl:
  "format_email_body e template_path fe changes updater = Inl err \<Longrightarrow>
     err = KeyError ''IMPLEMENTATION_STATUS'' \<or> (\<exists>msg. err = ValueError msg)"
  by (auto simp: format_email_body_def Let_def split: option.splits sum.splits
        dest: moz_links_Inl)

lemma format_email_body_never_asserts:
  "format_email_body e template_path fe changes updater \<noteq> Inl (AssertionError m)"
  using format_email_body_Inl[of e template_path fe changes updater "AssertionError m"]
  by auto

lemma apply_subscription_rules_Inl:
  "apply_subscription_rules e fe changes = Inl err \<Longrightarrow> err = KeyError ''STAGE_TYPES_SHIPPING''"
  by (auto simp: apply_subscription_rules_def Let_def split: option.splits)

lemma nonempty_feature_changes:
  "fst (feature_changes_addr_reasons e fe changes) = Inr t \<Longrightarrow> [] \<notin> set (map snd t)"
proof -
  assume a: "fst (feature_changes_addr_reasons e fe changes) = Inr t"
  have "[] \<notin> set (map snd ([] :: addr_reasons))" by simp
  then have "[] \<notin> set (map snd (accumulate_calls [] cs))" for cs
    by (rule nonempty_accumulate_calls)
  with a show ?thesis
    by (auto simp: feature_changes_addr_reasons_calls split: sum.splits)
qed

lemma feature_changes_addr_reasons_Inl:
  "fst (feature_changes_addr_reasons e fe changes) = Inl err \<Longrightarrow>
     err = KeyError ''STAGE_TYPES_SHIPPING''"
  by (auto simp: feature_changes_addr_reasons_calls split: sum.splits
        dest: apply_subscription_rules_Inl)

lemma make_feature_changes_email_never_asserts:
  "fst (make_feature_changes_email e fe is_update changes_arg) \<noteq> Inl (AssertionError m)"
proof
  assume a: "fst (make_feature_changes_email e fe is_update changes_arg) = Inl (AssertionError m)"
  define changes where "changes = (case changes_arg of None \<Rightarrow> [] | Some cs \<Rightarrow> cs)"
  define tp where "tp = (if is_update then ''update-feature-email.html'' else ''new-feature-email.html'')"
  show False
  proof (cases "format_email_body e tp fe changes None")
    case (Inl err)
    then have "err \<noteq> AssertionError m" using format_email_body_never_asserts by metis
    with a Inl show False
      by (auto simp: make_feature_changes_email_def changes_def tp_def Let_def split: if_splits)
  next
    case (Inr email_html)
    obtain r lg where r: "feature_changes_addr_reasons e fe changes = (r, lg)"
      by (cases "feature_changes_addr_reasons e fe changes")
    show False
    proof (cases r)
      case (Inl err)
      with r have "err = KeyError ''STAGE_TYPES_SHIPPING''"
        using feature_changes_addr_reasons_Inl[of e fe changes err] by simp
      with a Inr r Inl show False
        by (auto simp: make_feature_changes_email_def changes_def tp_def Let_def split: if_splits)
    next
      case (Inr t)
      with r have "[] \<notin> set (map snd t)"
        using nonempty_feature_changes[of e fe changes t] by simp
      then have "all_tasks st ccf t h s tr \<noteq> Inl (AssertionError m)" for st ccf h s tr
        by (rule all_tasks_never_asserts)
      with a \<open>format_email_body e tp fe changes None = Inr email_html\<close> r Inr show False
        by (auto simp: make_feature_changes_email_def changes_def tp_def Let_def split: if_splits)
    qed
  qed
qed

lemma add_reviewers_accumulates:
  "\<exists>addr_list reason. add_reviewers e fe gt t = accumulate_reasons t addr_list reason"
proof (cases "get_gate_by_type e (key_integer_id fe) gt")
  case None
  then show ?thesis by (simp add: add_reviewers_def) blast
next
  case (Some g)
  then show ?thesis by (cases "assignee_emails g = []") (simp_all add: add_reviewers_def, blast+)
qed

lemma nonempty_add_reviewers:
  assumes "[] \<notin> set (map snd t)"
  shows "[] \<notin> set (map snd (add_reviewers e fe gt t))"
proof -
  obtain addr_list reason
    where "add_reviewers e fe gt t = accumulate_reasons t addr_list reason"
    using add_reviewers_accumulates by blast
  then show ?thesis using nonempty_accumulate_reasons[OF assms] by simp
qed

lemma nonempty_add_core_receivers:
  "[] \<notin> set (map snd t) \<Longrightarrow> [] \<notin> set (map snd (add_core_receivers fe t))"
  unfolding add_core_receivers_calls by (rule nonempty_accumulate_calls)

lemma make_review_requests_email_never_asserts:
  "make_review_requests_email e fe gt changes_arg \<noteq> Inl (AssertionError m)"
proof -
  have "[] \<notin> set (map snd (add_reviewers e fe gt []))"
    by (rule nonempty_add_reviewers) simp
  then have "all_tasks st ccf (add_reviewers e fe gt []) h s tr \<noteq> Inl (AssertionError m)"
    for st ccf h s tr by (rule all_tasks_never_asserts)
  then show ?thesis
    by (auto simp: make_review_requests_email_def Let_def split: sum.splits
          dest: format_email_body_Inl)
qed

lemma make_review_assignment_email_never_asserts:
  "make_review_assignment_email e fe gt trig_user old_assignees new_assignees
     \<noteq> Inl (AssertionError m)"
proof -
  let ?t = "accumulate_reasons (accumulate_reasons [] old_assignees
              ''The review was previously assigned to you'') new_assignees
              ''The review is now assigned to you''"
  have "[] \<notin> set (map snd ?t)"
    by (intro nonempty_accumulate_reasons) simp
  then have "all_tasks st ccf ?t h s tr \<noteq> Inl (AssertionError m)"
    for st ccf h s tr by (rule all_tasks_never_asserts)
  then show ?thesis
    by (auto simp: make_review_assignment_email_def Let_def split: sum.splits
          dest: format_email_body_Inl)
qed

lemma make_new_comments_email_never_asserts:
  "make_new_comments_email e fe gt changes_arg \<noteq> Inl (AssertionError m)"
proof -
  have "[] \<notin> set (map snd (add_reviewers e fe gt (add_core_receivers fe [])))"
    by (intro nonempty_add_reviewers nonempty_add_core_receivers) simp
  then have "all_tasks st ccf (add_reviewers e fe gt (add_core_receivers fe [])) h s tr
      \<noteq> Inl (AssertionError m)"
    for st ccf h s tr by (rule all_tasks_never_asserts)
  then show ?thesis
    by (auto simp: make_new_comments_email_def Let_def split: sum.splits
          dest: format_email_body_Inl)
qed


text \<open>
  Claim C1.  A table built from the empty table by any sequence of accumulations has
  exactly the addresses of the accumulated lists as its keys, and none of its entries has
  an empty list of reasons; so the conversion of the table raises nothing and gives one
  task per entry.  A table with an entry without reasons is never turned into tasks: the
  conversion stops with the assertion error.  The assertion never fires in any of the four
  functions that build tasks from a table.
\<close>

theorem every_recipient_has_a_reason:
  "fst ` set (accumulate_calls [] calls) = recipients calls
   \<and> [] \<notin> set (map snd (accumulate_calls [] calls))
   \<and> (\<exists>tasks. all_tasks st ccf (accumulate_calls [] calls) email_html subj trig = Inr tasks
          \<and> map to tasks = map fst (sort (accumulate_calls [] calls)))
   \<and> (\<forall>t. [] \<in> set (map snd t) \<longrightarrow>
          all_tasks st ccf t email_html subj trig =
            Inl (AssertionError ''We are emailing someone without any reason''))
   \<and> fst (make_feature_changes_email e fe is_update changes_arg) \<noteq> Inl (AssertionError m)
   \<and> make_review_requests_email e fe gt changes_arg \<noteq> Inl (AssertionError m)
   \<and> make_review_assignment_email e fe gt trig_user old_assignees new_assignees
        \<noteq> Inl (AssertionError m)
   \<and> make_new_comments_email e fe gt changes_arg \<noteq> Inl (AssertionError m)"
proof -
  have keys: "fst ` set (accumulate_calls [] calls) = recipients calls"
    by (simp add: keys_accumulate_calls)
  have ne: "[] \<notin> set (map snd (accumulate_calls [] calls))"
    by (rule nonempty_accumulate_calls) simp
  have tasks: "\<exists>tasks. all_tasks st ccf (accumulate_calls [] calls) email_html subj trig = Inr tasks
          \<and> map to tasks = map fst (sort (accumulate_calls [] calls))"
    using ne by (rule all_tasks_to)
  have loud: "\<forall>t. [] \<in> set (map snd t) \<longrightarrow>
          all_tasks st ccf t email_html subj trig =
            Inl (AssertionError ''We are emailing someone without any reason'')"
  proof (intro allI impI)
    fix t :: addr_reasons
    assume "[] \<in> set (map snd t)"
    then obtain addr where "(addr, []) \<in> set t" by auto
    then show "all_tasks st ccf t email_html subj trig =
            Inl (AssertionError ''We are emailing someone without any reason'')"
      by (rule all_tasks_empty_reason)
  qed
  show ?thesis
    by (intro conjI keys ne tasks loud make_feature_changes_email_never_asserts
          make_review_requests_email_never_asserts make_review_assignment_email_never_asserts
          make_new_comments_email_never_asserts)
qed

theorem every_recipient_has_a_reason_witness:
  "map to (projr (all_tasks \<lparr>SITE_URL = ''http://127.0.0.1:7777/'', SEND_EMAIL = False,
        REVIEW_COMMENT_MAILING_LIST = ''list@example.com''\<rparr> (\<lambda>a. False)
      (accumulate_calls []
        [([''watcher_1@example.com'', ''owner_1@example.com''], ''a reason''),
         ([''owner_1@example.com''], ''another reason'')])
      ''html'' ''subject'' None))
    = [''owner_1@example.com'', ''watcher_1@example.com'']
   \<and> [] \<in> set (map snd [(''addr'', [] :: string list)])
   \<and> all_tasks \<lparr>SITE_URL = ''http://127.0.0.1:7777/'', SEND_EMAIL = False,
        REVIEW_COMMENT_MAILING_LIST = ''list@example.com''\<rparr> (\<lambda>a. False)
      [(''addr'', [])] ''html'' ''subject'' None
    = Inl (AssertionError ''We are emailing someone without any reason'')"
  using every_recipient_has_a_reason [of
      "[([''watcher_1@example.com'', ''owner_1@example.com''], ''a reason''),
        ([''owner_1@example.com''], ''another reason'')]"
      "\<lparr>SITE_URL = ''http://127.0.0.1:7777/'', SEND_EMAIL = False,
        REVIEW_COMMENT_MAILING_LIST = ''list@example.com''\<rparr>" "\<lambda>a. False"
      "''html''" "''subject''" None]
  by (simp add: all_tasks_def convert_reasons_to_task_def)

subsection \<open>The subscription rules\<close>

lemma map_of_dict_set: "map_of (dict_set d k v) = (map_of d)(k \<mapsto> v)"
  by (induction d k v rule: dict_set.induct) (auto simp: fun_eq_iff)

lemma rule_reasons_differ: "IWA_RULE_REASON \<noteq> WEBVIEW_RULE_REASON"
  by (simp add: IWA_RULE_REASON_def WEBVIEW_RULE_REASON_def)

lemma apply_subscription_rules_listed:
  assumes "STAGE_TYPES_SHIPPING e (feature_type fe) = Some listed"
  shows "\<exists>results. apply_subscription_rules e fe changes = Inr results
     \<and> map_of results IWA_RULE_REASON =
           (if category fe = IWA e then Some IWA_RULE_ADDRS else None)"
  using assms
  by (auto simp: apply_subscription_rules_def Let_def map_of_dict_set rule_reasons_differ
        split: option.splits list.splits)

text \<open>
  What the rule does: it reads the milestones of the first shipping stage of the feature
  and of no other.  A milestone is set when it holds a number other than 0.
\<close>

lemma webview_rule_reads_first_shipping_stage:
  assumes "STAGE_TYPES_SHIPPING e (feature_type fe) = Some listed"
    and "get_feature_stages e (key_integer_id fe) (case listed of None \<Rightarrow> 0 | Some n \<Rightarrow> n)
           = Some (stage # stages)"
  shows "\<exists>results. apply_subscription_rules e fe changes = Inr results
     \<and> map_of results WEBVIEW_RULE_REASON =
          (case milestones stage of
             None \<Rightarrow> None
           | Some ms \<Rightarrow>
               if truthy (android_first ms) \<and> \<not> truthy (webview_first ms)
                  \<and> ''shipped_android_milestone'' \<in> set (map prop_name changes)
               then Some WEBVIEW_RULE_ADDRS else None)"
  using assms
  by (auto simp: apply_subscription_rules_def Let_def map_of_dict_set rule_reasons_differ
        rule_reasons_differ[symmetric] split: option.splits)

text \<open>
  Claim C5.  The claim is about every feature whose shipping-stage milestones have
  \<^verbatim>\<open>android_first\<close> set and \<^verbatim>\<open>webview_first\<close> unset, and the comment in the source
  says ``Find an existing shipping stage with milestone info''.  The code takes
  \<^verbatim>\<open>ship_stages[0]\<close> whatever it holds.  Take the feature of the fixture with two
  shipping stages, the first without milestones (as the shipping stage of
  \<^verbatim>\<open>FunctionsTest.setUp\<close>), the second with the android milestone 88 and no webview
  milestone, and a change of \<^verbatim>\<open>shipped_android_milestone\<close>.  The rule returns the
  empty dictionary, so the webview addresses are not notified, while
  \<open>determine_milestone_string\<close>, which goes through all the shipping stages, finds the
  android milestone on the same stages.  With the two stages in the other order the rule
  returns the webview reason.
\<close>

theorem webview_rule_misses_later_shipping_stage:
  "apply_subscription_rules
     ((test_env \<lparr> desktop_first = None, android_first = None, webview_first = None \<rparr>)
        \<lparr> get_feature_stages := (\<lambda>fid. if fid = 1
            then [160 \<mapsto>
              [\<lparr> stage_type = 160, milestones = None,
                  intent_thread_url = None, intent_subject_line = None \<rparr>,
               ship_stage \<lparr> desktop_first = None, android_first = Some 88,
                            webview_first = None \<rparr>]]
            else Map.empty) \<rparr>)
     fe_1
     [\<lparr> prop_name = ''shipped_android_milestone'', old_val = ''87'', new_val = ''88'' \<rparr>]
     = Inr []
   \<and> determine_milestone_string
       [\<lparr> stage_type = 160, milestones = None,
           intent_thread_url = None, intent_subject_line = None \<rparr>,
        ship_stage \<lparr> desktop_first = None, android_first = Some 88, webview_first = None \<rparr>]
     = ''88 (android)''
   \<and> apply_subscription_rules
     ((test_env \<lparr> desktop_first = None, android_first = None, webview_first = None \<rparr>)
        \<lparr> get_feature_stages := (\<lambda>fid. if fid = 1
            then [160 \<mapsto>
              [ship_stage \<lparr> desktop_first = None, android_first = Some 88,
                            webview_first = None \<rparr>,
               \<lparr> stage_type = 160, milestones = None,
                  intent_thread_url = None, intent_subject_line = None \<rparr>]]
            else Map.empty) \<rparr>)
     fe_1
     [\<lparr> prop_name = ''shipped_android_milestone'', old_val = ''87'', new_val = ''88'' \<rparr>]
     = Inr [(WEBVIEW_RULE_REASON, WEBVIEW_RULE_ADDRS)]"
proof (intro conjI)
  show "apply_subscription_rules
     ((test_env \<lparr> desktop_first = None, android_first = None, webview_first = None \<rparr>)
        \<lparr> get_feature_stages := (\<lambda>fid. if fid = 1
            then [160 \<mapsto>
              [\<lparr> stage_type = 160, milestones = None,
                  intent_thread_url = None, intent_subject_line = None \<rparr>,
               ship_stage \<lparr> desktop_first = None, android_first = Some 88,
                            webview_first = None \<rparr>]]
            else Map.empty) \<rparr>)
     fe_1
     [\<lparr> prop_name = ''shipped_android_milestone'', old_val = ''87'', new_val = ''88'' \<rparr>]
     = Inr []"
    by (simp add: apply_subscription_rules_def test_env_def fe_1_def)
  show "determine_milestone_string
       [\<lparr> stage_type = 160, milestones = None,
           intent_thread_url = None, intent_subject_line = None \<rparr>,
        ship_stage \<lparr> desktop_first = None, android_first = Some 88, webview_first = None \<rparr>]
     = ''88 (android)''"
    by code_simp
  show "apply_subscription_rules
     ((test_env \<lparr> desktop_first = None, android_first = None, webview_first = None \<rparr>)
        \<lparr> get_feature_stages := (\<lambda>fid. if fid = 1
            then [160 \<mapsto>
              [ship_stage \<lparr> desktop_first = None, android_first = Some 88,
                            webview_first = None \<rparr>,
               \<lparr> stage_type = 160, milestones = None,
                  intent_thread_url = None, intent_subject_line = None \<rparr>]]
            else Map.empty) \<rparr>)
     fe_1
     [\<lparr> prop_name = ''shipped_android_milestone'', old_val = ''87'', new_val = ''88'' \<rparr>]
     = Inr [(WEBVIEW_RULE_REASON, WEBVIEW_RULE_ADDRS)]"
    by (simp add: apply_subscription_rules_def test_env_def fe_1_def ship_stage_def truthy_def)
qed

subsection \<open>The tasks of a feature change\<close>

lemma moz_links_Inr:
  assumes "\<forall>link \<in> set links. \<exists>hostname. hostname_of link = Hostname hostname"
  shows "\<exists>urls. moz_links hostname_of links = Inr urls"
  using assms by (induction links) auto

lemma format_email_body_Inr:
  assumes "IMPLEMENTATION_STATUS e (impl_status_chrome fe) = Some status"
    and "\<forall>link \<in> set (doc_links fe). \<exists>hostname. urlparse_hostname e link = Hostname hostname"
  shows "\<exists>email_html. format_email_body e template_path fe changes updater = Inr email_html"
proof -
  from assms(2) obtain urls where "moz_links (urlparse_hostname e) (doc_links fe) = Inr urls"
    using moz_links_Inr by blast
  with assms(1) show ?thesis by (simp add: format_email_body_def Let_def)
qed

lemma make_feature_changes_email_body_error:
  assumes "format_email_body e
             (if is_update then ''update-feature-email.html'' else ''new-feature-email.html'')
             fe (case changes_arg of None \<Rightarrow> [] | Some cs \<Rightarrow> cs) None = Inl err"
  shows "make_feature_changes_email e fe is_update changes_arg = (Inl err, [])"
  using assms by (cases is_update) (simp_all add: make_feature_changes_email_def Let_def)

text \<open>
  A documentation link that cannot be parsed ends \<open>make_feature_changes_email\<close> before
  any recipient is looked up.
\<close>

lemma malformed_doc_link_raises:
  "make_feature_changes_email
     (test_env \<lparr> desktop_first = None, android_first = None, webview_first = None \<rparr>)
     (fe_1\<lparr>doc_links := [''http://[bad'']\<rparr>) False (Some [])
   = (Inl (ValueError ''Invalid IPv6 URL''), [])"
  by (rule make_feature_changes_email_body_error)
     (simp add: format_email_body_def test_env_def)

lemma make_feature_changes_email_calls:
  assumes "format_email_body e
             (if is_update then ''update-feature-email.html'' else ''new-feature-email.html'')
             fe (case changes_arg of None \<Rightarrow> [] | Some cs \<Rightarrow> cs) None = Inr email_html"
    and "apply_subscription_rules e fe (case changes_arg of None \<Rightarrow> [] | Some cs \<Rightarrow> cs)
           = Inr rule_results"
  shows "make_feature_changes_email e fe is_update changes_arg =
     (all_tasks (settings e) (can_create_feature e)
        (accumulate_calls [] (category_contributions e fe rule_results)) email_html
        (if is_update then ''updated feature: '' @ FeatureEntry.name fe
         else ''new feature: '' @ FeatureEntry.name fe)
        (if is_update then updater_email fe else creator_email fe),
      map component_warning
        (filter (\<lambda>n. BlinkComponent_get_by_name e n = None) (blink_components fe)))"
  using assms
  by (cases is_update)
     (simp_all add: make_feature_changes_email_def Let_def feature_changes_addr_reasons_calls)

lemma reasons_of_member:
  assumes "distinct (map fst t)" and "(addr, reasons) \<in> set t"
  shows "reasons_of t addr = reasons"
  using assms by (simp add: reasons_of_def)

lemma table_of_contributions:
  fixes cs :: "(string list \<times> string) list"
  defines "t \<equiv> accumulate_calls [] cs"
  shows "distinct (map fst t)" and "[] \<notin> set (map snd t)" and "fst ` set t = recipients cs"
    and "reasons_of t addr = contributed cs addr"
proof -
  show "distinct (map fst t)" unfolding t_def by (rule distinct_accumulate_calls) simp
  show "[] \<notin> set (map snd t)" unfolding t_def by (rule nonempty_accumulate_calls) simp
  show "fst ` set t = recipients cs" unfolding t_def by (simp add: keys_accumulate_calls)
  show "reasons_of t addr = contributed cs addr"
    unfolding t_def by (simp add: reasons_of_accumulate_calls) (simp add: reasons_of_def)
qed

lemma tasks_of_table:
  fixes t :: addr_reasons
  assumes d: "distinct (map fst t)" and ne: "[] \<notin> set (map snd t)"
  shows "\<exists>tasks. all_tasks st ccf t email_html subj trig = Inr tasks
     \<and> set (map to tasks) = fst ` set t
     \<and> distinct (map to tasks)
     \<and> sorted (map to tasks)
     \<and> (\<forall>task \<in> set tasks.
           task = Email_Task (to task) subj (if ccf (to task) then trig else None)
             (email_html @ newline @ newline
                @ join newline (footer_lines st (reasons_of t (to task)))))"
proof -
  let ?conv = "\<lambda>(addr, reasons).
            Email_Task addr subj (if ccf addr then trig else None)
              (email_html @ newline @ newline @ join newline (footer_lines st reasons))"
  define tasks where "tasks = map ?conv (sort t)"
  have tasks: "all_tasks st ccf t email_html subj trig = Inr tasks"
    unfolding tasks_def using ne by (rule all_tasks_nonempty)
  have to: "map to tasks = map fst (sort t)"
    by (simp add: tasks_def o_def split_beta)
  have "mset (map fst (sort t)) = mset (map fst t)" by simp
  then have "distinct (map fst (sort t))"
    using d mset_eq_imp_distinct_iff by blast
  then have dist: "distinct (map to tasks)" by (simp only: to)
  have "sorted (map fst (sort t))" by (rule sorted_map_fst) simp
  then have srt: "sorted (map to tasks)" by (simp only: to)
  have "set (map fst (sort t)) = fst ` set t" by simp
  then have keys: "set (map to tasks) = fst ` set t" by (simp only: to)
  have each: "\<forall>task \<in> set tasks.
           task = Email_Task (to task) subj (if ccf (to task) then trig else None)
             (email_html @ newline @ newline
                @ join newline (footer_lines st (reasons_of t (to task))))"
  proof
    fix task assume "task \<in> set tasks"
    then obtain addr reasons where m: "(addr, reasons) \<in> set t"
      and task: "task = ?conv (addr, reasons)" by (auto simp: tasks_def)
    from d m have "reasons_of t addr = reasons" by (rule reasons_of_member)
    with task show "task = Email_Task (to task) subj (if ccf (to task) then trig else None)
             (email_html @ newline @ newline
                @ join newline (footer_lines st (reasons_of t (to task))))"
      by simp
  qed
  from tasks keys dist srt each show ?thesis by blast
qed

lemma feature_changes_tasks:
  assumes "format_email_body e
             (if is_update then ''update-feature-email.html'' else ''new-feature-email.html'')
             fe changes None = Inr email_html"
    and "STAGE_TYPES_SHIPPING e (feature_type fe) \<noteq> None"
    and "changes = (case changes_arg of None \<Rightarrow> [] | Some cs \<Rightarrow> cs)"
  shows "\<exists>tasks rule_results t lg.
       make_feature_changes_email e fe is_update changes_arg = (Inr tasks, lg)
     \<and> apply_subscription_rules e fe changes = Inr rule_results
     \<and> feature_changes_addr_reasons e fe changes = (Inr t, lg)
     \<and> set (map to tasks) = recipients (category_contributions e fe rule_results)
     \<and> distinct (map to tasks)
     \<and> sorted (map to tasks)
     \<and> (\<forall>addr. reasons_of t addr =
                   contributed (category_contributions e fe rule_results) addr)
     \<and> (\<forall>task \<in> set tasks.
           html task = email_html @ newline @ newline
             @ join newline (footer_lines (settings e) (reasons_of t (to task))))"
proof -
  let ?tp = "if is_update then ''update-feature-email.html'' else ''new-feature-email.html''"
  let ?subj = "if is_update then ''updated feature: '' @ FeatureEntry.name fe
               else ''new feature: '' @ FeatureEntry.name fe"
  let ?trig = "if is_update then updater_email fe else creator_email fe"
  let ?lg = "map component_warning
        (filter (\<lambda>n. BlinkComponent_get_by_name e n = None) (blink_components fe))"
  have body: "format_email_body e ?tp fe changes None = Inr email_html"
    by (rule assms(1))
  from assms(2) obtain listed where "STAGE_TYPES_SHIPPING e (feature_type fe) = Some listed"
    by auto
  then obtain rule_results where rules: "apply_subscription_rules e fe changes = Inr rule_results"
    using apply_subscription_rules_listed by blast
  define cs where "cs = category_contributions e fe rule_results"
  define t where "t = accumulate_calls [] cs"
  have table: "feature_changes_addr_reasons e fe changes = (Inr t, ?lg)"
    by (simp add: feature_changes_addr_reasons_calls rules t_def cs_def)
  have d: "distinct (map fst t)" and ne: "[] \<notin> set (map snd t)"
    and keys: "fst ` set t = recipients cs"
    and reasons: "reasons_of t addr = contributed cs addr" for addr
    unfolding t_def by (rule table_of_contributions)+
  obtain tasks where tasks: "all_tasks (settings e) (can_create_feature e) t email_html ?subj ?trig
        = Inr tasks"
    and to: "set (map to tasks) = fst ` set t" "distinct (map to tasks)" "sorted (map to tasks)"
    and each: "\<forall>task \<in> set tasks.
           task = Email_Task (to task) ?subj (if can_create_feature e (to task) then ?trig else None)
             (email_html @ newline @ newline
                @ join newline (footer_lines (settings e) (reasons_of t (to task))))"
    using tasks_of_table[OF d ne, of "settings e" "can_create_feature e" email_html ?subj ?trig]
    by blast
  have result: "make_feature_changes_email e fe is_update changes_arg = (Inr tasks, ?lg)"
    using make_feature_changes_email_calls[OF body[unfolded assms(3)] rules[unfolded assms(3)]]
      tasks by (simp add: t_def cs_def)
  have htmls: "\<forall>task \<in> set tasks.
           html task = email_html @ newline @ newline
             @ join newline (footer_lines (settings e) (reasons_of t (to task)))"
  proof
    fix task assume "task \<in> set tasks"
    with each have "task = Email_Task (to task) ?subj
        (if can_create_feature e (to task) then ?trig else None)
        (email_html @ newline @ newline
           @ join newline (footer_lines (settings e) (reasons_of t (to task))))"
      by blast
    from arg_cong[OF this, of html]
    show "html task = email_html @ newline @ newline
             @ join newline (footer_lines (settings e) (reasons_of t (to task)))"
      by (simp only: email_task.sel)
  qed
  show ?thesis
    using result rules table to(1)[unfolded keys] to(2,3) reasons htmls
    unfolding cs_def by blast
qed


text \<open>
  Claim C4.  \<open>make_feature_changes_email\<close> formats the body first and raises what
  \<open>format_email_body\<close> raises (a documentation link that cannot be parsed, a status
  that is not listed).  When \<open>format_email_body\<close> returns a body and the type of the
  feature is listed in \<^verbatim>\<open>STAGE_TYPES_SHIPPING\<close>,
  \<open>make_feature_changes_email\<close> returns a list of tasks: the addresses of the tasks are
  exactly the addresses of the category contributions (owners, editors, CC, devrel,
  watchers, owners and subscribers of the stored components, starrers, matching rules),
  each address once, in ascending order; the reasons the table holds for an address are
  the reasons the categories contribute to it, each as often as the address occurs in the
  category (as lists, hence as multisets); and the footer of each task is built from the
  reasons of its address.
\<close>

theorem one_task_per_recipient_with_all_its_reasons:
  assumes "format_email_body e
             (if is_update then ''update-feature-email.html'' else ''new-feature-email.html'')
             fe changes None = Inr email_html"
    and "STAGE_TYPES_SHIPPING e (feature_type fe) \<noteq> None"
    and "changes = (case changes_arg of None \<Rightarrow> [] | Some cs \<Rightarrow> cs)"
  shows "\<exists>tasks rule_results t lg.
       make_feature_changes_email e fe is_update changes_arg = (Inr tasks, lg)
     \<and> apply_subscription_rules e fe changes = Inr rule_results
     \<and> feature_changes_addr_reasons e fe changes = (Inr t, lg)
     \<and> set (map to tasks) = recipients (category_contributions e fe rule_results)
     \<and> distinct (map to tasks)
     \<and> sorted (map to tasks)
     \<and> (\<forall>addr. reasons_of t addr =
                   contributed (category_contributions e fe rule_results) addr)
     \<and> (\<forall>task \<in> set tasks.
           html task = email_html @ newline @ newline
             @ join newline (footer_lines (settings e) (reasons_of t (to task))))"
  using assms by (rule feature_changes_tasks)

theorem one_task_per_recipient_with_all_its_reasons_witness:
  "(\<exists>tasks rule_results t lg.
       make_feature_changes_email
         (test_env \<lparr> desktop_first = None, android_first = None, webview_first = None \<rparr>)
         fe_1 False (Some []) = (Inr tasks, lg)
     \<and> apply_subscription_rules
         (test_env \<lparr> desktop_first = None, android_first = None, webview_first = None \<rparr>)
         fe_1 [] = Inr rule_results
     \<and> feature_changes_addr_reasons
         (test_env \<lparr> desktop_first = None, android_first = None, webview_first = None \<rparr>)
         fe_1 [] = (Inr t, lg)
     \<and> set (map to tasks) = recipients (category_contributions
         (test_env \<lparr> desktop_first = None, android_first = None, webview_first = None \<rparr>)
         fe_1 rule_results)
     \<and> distinct (map to tasks)
     \<and> sorted (map to tasks)
     \<and> (\<forall>addr. reasons_of t addr = contributed (category_contributions
         (test_env \<lparr> desktop_first = None, android_first = None, webview_first = None \<rparr>)
         fe_1 rule_results) addr)
     \<and> (\<forall>task \<in> set tasks.
           html task = ''mock body html'' @ newline @ newline
             @ join newline (footer_lines (settings
         (test_env \<lparr> desktop_first = None, android_first = None, webview_first = None \<rparr>))
               (reasons_of t (to task)))))
   \<and> map to (projr (fst (make_feature_changes_email
         (test_env \<lparr> desktop_first = None, android_first = None, webview_first = None \<rparr>)
         fe_1 False (Some []))))
       = [''cc@example.com'', ''devrel1@gmail.com'', ''feature_editor@example.com'',
          ''feature_owner@example.com'', ''owner_1@example.com'', ''watcher_1@example.com'']"
proof -
  let ?e = "test_env \<lparr> desktop_first = None, android_first = None, webview_first = None \<rparr>"
  have listed: "STAGE_TYPES_SHIPPING ?e (feature_type fe_1) \<noteq> None"
    by (simp add: test_env_def fe_1_def)
  have changes: "[] = (case Some [] of None \<Rightarrow> [] | Some cs \<Rightarrow> cs)"
    by simp
  have rules: "apply_subscription_rules ?e fe_1 [] = Inr []"
    by (simp add: apply_subscription_rules_def test_env_def fe_1_def ship_stage_def truthy_def)
  have body: "format_email_body ?e ''new-feature-email.html'' fe_1 [] None = Inr ''mock body html''"
    by (simp add: format_email_body_def test_env_def fe_1_def)
  then have formatted: "format_email_body ?e
      (if False then ''update-feature-email.html'' else ''new-feature-email.html'')
      fe_1 [] None = Inr ''mock body html''"
    by simp
  have cs: "category_contributions ?e fe_1 [] =
     [([''feature_owner@example.com''], ''You are listed as an owner of this feature''),
      ([''feature_editor@example.com'', ''owner_1@example.com''],
         ''You are listed as an editor of this feature''),
      ([''cc@example.com''], ''You are CC'd on this feature''),
      ([''devrel1@gmail.com''], ''You are a devrel contact for this feature.''),
      ([''watcher_1@example.com''], ''You are watching all feature changes''),
      ([''owner_1@example.com''], ''You are an owner of this feature's component''),
      ([], ''You subscribe to this feature's component''),
      ([], ''You starred this feature'')]"
    by (simp add: category_contributions_def component_contributions_def get_feature_starrers_def
          test_env_def fe_1_def component_owner_1_def watcher_1_def)
  have recipients_sorted: "map to (projr (fst (make_feature_changes_email ?e fe_1 False (Some []))))
       = [''cc@example.com'', ''devrel1@gmail.com'', ''feature_editor@example.com'',
          ''feature_owner@example.com'', ''owner_1@example.com'', ''watcher_1@example.com'']"
    using make_feature_changes_email_calls[of ?e False fe_1 "Some []" "''mock body html''" "[]"]
      body rules
    by (simp add: cs all_tasks_def convert_reasons_to_task_def)
  show ?thesis
    using one_task_per_recipient_with_all_its_reasons [OF formatted listed changes]
      recipients_sorted
    by (intro conjI)
qed

subsection \<open>Features of the IWA category\<close>

lemma contribution_reaches_address:
  assumes "(addr_list, reason) \<in> set cs" and "addr \<in> set addr_list"
  shows "addr \<in> recipients cs" and "reason \<in> set (contributed cs addr)"
proof -
  show "addr \<in> recipients cs" using assms by (auto simp: recipients_def)
  have "count_list addr_list addr \<noteq> 0" using assms(2) by (simp add: count_list_0_iff)
  then have "0 < count_list addr_list addr" by simp
  then have "reason \<in> set (replicate (count_list addr_list addr) reason)" by simp
  then show "reason \<in> set (contributed cs addr)"
    using assms(1) unfolding contributed_def by (auto intro!: bexI[of _ "(addr_list, reason)"])
qed

lemma rule_is_contribution:
  "(reason, sub_addrs) \<in> set rule_results \<Longrightarrow>
     (sub_addrs, reason) \<in> set (category_contributions e fe rule_results)"
  by (auto simp: category_contributions_def intro!: image_eqI[of _ _ "(reason, sub_addrs)"])

lemma footer_lists_reason:
  "reason \<in> set reasons \<Longrightarrow> ''<li>'' @ reason @ ''</li>'' \<in> set (footer_lines st reasons)"
  by (simp add: footer_lines_def sorted_set_def)

text \<open>
  Claim C6.  For a feature of the IWA category whose type is listed in
  \<^verbatim>\<open>STAGE_TYPES_SHIPPING\<close>, and for every list of changes, the dictionary of
  \<open>apply_subscription_rules\<close> maps the IWA reason to the IWA addresses; and when the body
  can be formatted, \<open>make_feature_changes_email\<close> returns tasks among which every IWA
  address has a task whose footer lists the IWA reason.  The body can be formatted when
  \<open>format_email_body\<close> returns it: every documentation link of the feature can be
  parsed and the implementation status is listed.
\<close>

theorem iwa_features_notify_the_iwa_list:
  assumes "category fe = IWA e"
    and "STAGE_TYPES_SHIPPING e (feature_type fe) \<noteq> None"
  shows "(\<exists>results. apply_subscription_rules e fe changes = Inr results
            \<and> map_of results IWA_RULE_REASON = Some IWA_RULE_ADDRS)
     \<and> (format_email_body e
            (if is_update then ''update-feature-email.html'' else ''new-feature-email.html'')
            fe (case changes_arg of None \<Rightarrow> [] | Some cs \<Rightarrow> cs) None = Inr email_html \<longrightarrow>
          (\<exists>tasks lg.
              make_feature_changes_email e fe is_update changes_arg = (Inr tasks, lg)
            \<and> (\<forall>addr \<in> set IWA_RULE_ADDRS. \<exists>task \<in> set tasks. \<exists>reasons.
                  to task = addr
                \<and> IWA_RULE_REASON \<in> set reasons
                \<and> ''<li>'' @ IWA_RULE_REASON @ ''</li>'' \<in> set (footer_lines (settings e) reasons)
                \<and> html task = email_html @ newline @ newline
                      @ join newline (footer_lines (settings e) reasons))))"
proof (intro conjI impI)
  from assms(2) obtain listed where listed: "STAGE_TYPES_SHIPPING e (feature_type fe) = Some listed"
    by auto
  show "\<exists>results. apply_subscription_rules e fe changes = Inr results
            \<and> map_of results IWA_RULE_REASON = Some IWA_RULE_ADDRS"
    using apply_subscription_rules_listed[OF listed, of changes] assms(1) by simp
  assume "format_email_body e
            (if is_update then ''update-feature-email.html'' else ''new-feature-email.html'')
            fe (case changes_arg of None \<Rightarrow> [] | Some cs \<Rightarrow> cs) None = Inr email_html"
  define chs where "chs = (case changes_arg of None \<Rightarrow> [] | Some cs \<Rightarrow> cs)"
  with \<open>format_email_body e
            (if is_update then ''update-feature-email.html'' else ''new-feature-email.html'')
            fe (case changes_arg of None \<Rightarrow> [] | Some cs \<Rightarrow> cs) None = Inr email_html\<close>
  have body: "format_email_body e
            (if is_update then ''update-feature-email.html'' else ''new-feature-email.html'')
            fe chs None = Inr email_html"
    by simp
  obtain tasks rule_results t lg where
    result: "make_feature_changes_email e fe is_update changes_arg = (Inr tasks, lg)"
    and rules: "apply_subscription_rules e fe chs = Inr rule_results"
    and to: "set (map to tasks) = recipients (category_contributions e fe rule_results)"
    and reasons: "\<forall>addr. reasons_of t addr =
                   contributed (category_contributions e fe rule_results) addr"
    and htmls: "\<forall>task \<in> set tasks.
           html task = email_html @ newline @ newline
             @ join newline (footer_lines (settings e) (reasons_of t (to task)))"
    using feature_changes_tasks[OF body assms(2) chs_def] by blast
  have "map_of rule_results IWA_RULE_REASON = Some IWA_RULE_ADDRS"
    using apply_subscription_rules_listed[OF listed, of chs] assms(1) rules by simp
  then have "(IWA_RULE_REASON, IWA_RULE_ADDRS) \<in> set rule_results" by (rule map_of_SomeD)
  then have c: "(IWA_RULE_ADDRS, IWA_RULE_REASON) \<in> set (category_contributions e fe rule_results)"
    by (rule rule_is_contribution)
  have "\<forall>addr \<in> set IWA_RULE_ADDRS. \<exists>task \<in> set tasks. \<exists>reasons.
                  to task = addr
                \<and> IWA_RULE_REASON \<in> set reasons
                \<and> ''<li>'' @ IWA_RULE_REASON @ ''</li>'' \<in> set (footer_lines (settings e) reasons)
                \<and> html task = email_html @ newline @ newline
                      @ join newline (footer_lines (settings e) reasons)"
  proof
    fix addr assume a: "addr \<in> set IWA_RULE_ADDRS"
    from contribution_reaches_address[OF c a]
    have r: "addr \<in> recipients (category_contributions e fe rule_results)"
      and i: "IWA_RULE_REASON \<in> set (reasons_of t addr)"
      using reasons by simp_all
    from r to have "addr \<in> to ` set tasks" by simp
    then obtain task where task: "task \<in> set tasks" "to task = addr" by auto
    from htmls task have "html task = email_html @ newline @ newline
             @ join newline (footer_lines (settings e) (reasons_of t addr))" by auto
    with task i footer_lists_reason[OF i, of "settings e"]
    show "\<exists>task \<in> set tasks. \<exists>reasons.
                  to task = addr
                \<and> IWA_RULE_REASON \<in> set reasons
                \<and> ''<li>'' @ IWA_RULE_REASON @ ''</li>'' \<in> set (footer_lines (settings e) reasons)
                \<and> html task = email_html @ newline @ newline
                      @ join newline (footer_lines (settings e) reasons)"
      by blast
  qed
  with result show "\<exists>tasks lg.
              make_feature_changes_email e fe is_update changes_arg = (Inr tasks, lg)
            \<and> (\<forall>addr \<in> set IWA_RULE_ADDRS. \<exists>task \<in> set tasks. \<exists>reasons.
                  to task = addr
                \<and> IWA_RULE_REASON \<in> set reasons
                \<and> ''<li>'' @ IWA_RULE_REASON @ ''</li>'' \<in> set (footer_lines (settings e) reasons)
                \<and> html task = email_html @ newline @ newline
                      @ join newline (footer_lines (settings e) reasons))"
    by blast
qed

theorem iwa_features_notify_the_iwa_list_witness:
  "(\<exists>results.
      apply_subscription_rules
        (test_env \<lparr> desktop_first = None, android_first = None, webview_first = None \<rparr>)
        (fe_1\<lparr>category := 25\<rparr>)
        [\<lparr> prop_name = ''shipped_android_milestone'', old_val = ''87'', new_val = ''88'' \<rparr>]
        = Inr results
      \<and> map_of results IWA_RULE_REASON = Some IWA_RULE_ADDRS)
   \<and> (\<exists>tasks lg.
        make_feature_changes_email
          (test_env \<lparr> desktop_first = None, android_first = None, webview_first = None \<rparr>)
          (fe_1\<lparr>category := 25\<rparr>) True
          (Some [\<lparr> prop_name = ''shipped_android_milestone'', old_val = ''87'',
                   new_val = ''88'' \<rparr>])
          = (Inr tasks, lg)
      \<and> (\<forall>addr \<in> set IWA_RULE_ADDRS. \<exists>task \<in> set tasks. \<exists>reasons.
            to task = addr
          \<and> IWA_RULE_REASON \<in> set reasons
          \<and> ''<li>'' @ IWA_RULE_REASON @ ''</li>''
               \<in> set (footer_lines (settings
          (test_env \<lparr> desktop_first = None, android_first = None, webview_first = None \<rparr>))
                    reasons)
          \<and> html task = ''mock body html'' @ newline @ newline
                @ join newline (footer_lines (settings
          (test_env \<lparr> desktop_first = None, android_first = None, webview_first = None \<rparr>))
                    reasons)))"
proof -
  let ?e = "test_env \<lparr> desktop_first = None, android_first = None, webview_first = None \<rparr>"
  let ?fe = "fe_1\<lparr>category := 25\<rparr>"
  have iwa: "category ?fe = IWA ?e"
    by (simp add: test_env_def)
  have listed: "STAGE_TYPES_SHIPPING ?e (feature_type ?fe) \<noteq> None"
    by (simp add: test_env_def fe_1_def)
  have body: "format_email_body ?e
      (if True then ''update-feature-email.html'' else ''new-feature-email.html'') ?fe
      (case Some [\<lparr> prop_name = ''shipped_android_milestone'', old_val = ''87'',
                      new_val = ''88'' \<rparr>] of None \<Rightarrow> [] | Some cs \<Rightarrow> cs) None
      = Inr ''mock body html''"
    by (simp add: format_email_body_def test_env_def fe_1_def)
  note rule = iwa_features_notify_the_iwa_list [OF iwa listed]
  from rule [THEN conjunct1] rule [THEN conjunct2, THEN mp, OF body]
  show ?thesis by (intro conjI)
qed

subsection \<open>A component that is not stored\<close>

lemma contributions_without_missing_component:
  assumes "BlinkComponent_get_by_name e component_name = None"
    and "blink_components fe = before @ component_name # after"
  shows "category_contributions e fe rule_results
           = category_contributions e (fe\<lparr>blink_components := before @ after\<rparr>) rule_results"
  using assms by (simp add: category_contributions_def component_contributions_def)

lemma apply_subscription_rules_blink_components:
  "apply_subscription_rules e (fe\<lparr>blink_components := names\<rparr>) changes
     = apply_subscription_rules e fe changes"
  by (simp add: apply_subscription_rules_def)

text \<open>
  Claim C8.  When a name among the components of the feature has no stored component, the
  table of the feature change is the table of the same feature without that name, so the
  name contributes no recipient and every other component contributes as before; the
  warning for the name is logged by the loop over the components; and no error comes of
  it: when \<open>format_email_body\<close> returns the body (the loop is not reached otherwise)
  and the type of the feature is listed, \<open>make_feature_changes_email\<close> returns its
  tasks and the warning, and the addresses of the tasks are the recipients of the feature
  without the name.
\<close>

theorem missing_component_is_logged_and_skipped:
  assumes "BlinkComponent_get_by_name e component_name = None"
    and "blink_components fe = before @ component_name # after"
  shows "fst (feature_changes_addr_reasons e fe changes)
           = fst (feature_changes_addr_reasons e (fe\<lparr>blink_components := before @ after\<rparr>) changes)
     \<and> component_warning component_name \<in> set (snd (feature_changes_addr_reasons e fe changes))
     \<and> category_contributions e fe rule_results
           = category_contributions e (fe\<lparr>blink_components := before @ after\<rparr>) rule_results
     \<and> (format_email_body e
            (if is_update then ''update-feature-email.html'' else ''new-feature-email.html'')
            fe (case changes_arg of None \<Rightarrow> [] | Some cs \<Rightarrow> cs) None = Inr email_html
          \<and> STAGE_TYPES_SHIPPING e (feature_type fe) \<noteq> None \<longrightarrow>
          (\<exists>tasks lg rules.
              make_feature_changes_email e fe is_update changes_arg = (Inr tasks, lg)
            \<and> component_warning component_name \<in> set lg
            \<and> apply_subscription_rules e fe
                 (case changes_arg of None \<Rightarrow> [] | Some cs \<Rightarrow> cs) = Inr rules
            \<and> set (map to tasks) = recipients (category_contributions e
                 (fe\<lparr>blink_components := before @ after\<rparr>) rules)))"
proof (intro conjI impI)
  show "fst (feature_changes_addr_reasons e fe changes)
           = fst (feature_changes_addr_reasons e (fe\<lparr>blink_components := before @ after\<rparr>) changes)"
    by (simp add: feature_changes_addr_reasons_calls apply_subscription_rules_blink_components
          contributions_without_missing_component[OF assms] split: sum.splits)
  show "component_warning component_name \<in> set (snd (feature_changes_addr_reasons e fe changes))"
    using assms by (simp add: feature_changes_addr_reasons_calls)
  show "category_contributions e fe rule_results
           = category_contributions e (fe\<lparr>blink_components := before @ after\<rparr>) rule_results"
    using assms by (rule contributions_without_missing_component)
  assume ok: "format_email_body e
            (if is_update then ''update-feature-email.html'' else ''new-feature-email.html'')
            fe (case changes_arg of None \<Rightarrow> [] | Some cs \<Rightarrow> cs) None = Inr email_html
          \<and> STAGE_TYPES_SHIPPING e (feature_type fe) \<noteq> None"
  define chs where "chs = (case changes_arg of None \<Rightarrow> [] | Some cs \<Rightarrow> cs)"
  from ok have body: "format_email_body e
            (if is_update then ''update-feature-email.html'' else ''new-feature-email.html'')
            fe chs None = Inr email_html"
    by (simp add: chs_def)
  obtain tasks rules t lg where
    result: "make_feature_changes_email e fe is_update changes_arg = (Inr tasks, lg)"
    and rules: "apply_subscription_rules e fe chs = Inr rules"
    and table: "feature_changes_addr_reasons e fe chs = (Inr t, lg)"
    and to: "set (map to tasks) = recipients (category_contributions e fe rules)"
    using feature_changes_tasks[OF body conjunct2[OF ok] chs_def]
    by blast
  from table have "lg = map component_warning
        (filter (\<lambda>n. BlinkComponent_get_by_name e n = None) (blink_components fe))"
    by (simp add: feature_changes_addr_reasons_calls)
  then have w: "component_warning component_name \<in> set lg"
    using assms by simp
  from result w rules to
  show "\<exists>tasks lg rules.
              make_feature_changes_email e fe is_update changes_arg = (Inr tasks, lg)
            \<and> component_warning component_name \<in> set lg
            \<and> apply_subscription_rules e fe
                 (case changes_arg of None \<Rightarrow> [] | Some cs \<Rightarrow> cs) = Inr rules
            \<and> set (map to tasks) = recipients (category_contributions e
                 (fe\<lparr>blink_components := before @ after\<rparr>) rules)"
    unfolding chs_def contributions_without_missing_component[OF assms] by blast
qed

theorem missing_component_is_logged_and_skipped_witness:
  "fst (feature_changes_addr_reasons
          (test_env \<lparr> desktop_first = None, android_first = None, webview_first = None \<rparr>)
          (fe_1\<lparr>blink_components := [''Unknown'', ''Blink'']\<rparr>) [])
     = fst (feature_changes_addr_reasons
          (test_env \<lparr> desktop_first = None, android_first = None, webview_first = None \<rparr>)
          (fe_1\<lparr>blink_components := [''Blink'']\<rparr>) [])
   \<and> (WARNING, ''Blink component \"Unknown\" not found.Not sending email to subscribers'')
       \<in> set (snd (feature_changes_addr_reasons
          (test_env \<lparr> desktop_first = None, android_first = None, webview_first = None \<rparr>)
          (fe_1\<lparr>blink_components := [''Unknown'', ''Blink'']\<rparr>) []))
   \<and> (\<exists>tasks lg rules.
          make_feature_changes_email
            (test_env \<lparr> desktop_first = None, android_first = None, webview_first = None \<rparr>)
            (fe_1\<lparr>blink_components := [''Unknown'', ''Blink'']\<rparr>) False (Some [])
            = (Inr tasks, lg)
        \<and> (WARNING, ''Blink component \"Unknown\" not found.Not sending email to subscribers'')
            \<in> set lg
        \<and> apply_subscription_rules
            (test_env \<lparr> desktop_first = None, android_first = None, webview_first = None \<rparr>)
            (fe_1\<lparr>blink_components := [''Unknown'', ''Blink'']\<rparr>) [] = Inr rules
        \<and> set (map to tasks) = recipients (category_contributions
            (test_env \<lparr> desktop_first = None, android_first = None, webview_first = None \<rparr>)
            (fe_1\<lparr>blink_components := [''Blink'']\<rparr>) rules))"
proof -
  let ?e = "test_env \<lparr> desktop_first = None, android_first = None, webview_first = None \<rparr>"
  let ?fe = "fe_1\<lparr>blink_components := [''Unknown'', ''Blink'']\<rparr>"
  have missing: "BlinkComponent_get_by_name ?e ''Unknown'' = None"
    by (simp add: test_env_def)
  have listed: "blink_components ?fe = [] @ ''Unknown'' # [''Blink'']"
    by simp
  have ok: "format_email_body ?e
            (if False then ''update-feature-email.html'' else ''new-feature-email.html'')
            ?fe (case Some [] of None \<Rightarrow> [] | Some cs \<Rightarrow> cs) None = Inr ''mock body html''
          \<and> STAGE_TYPES_SHIPPING ?e (feature_type ?fe) \<noteq> None"
    by (simp add: format_email_body_def test_env_def fe_1_def)
  note skipped = missing_component_is_logged_and_skipped [OF missing listed]
  have a: "fst (feature_changes_addr_reasons ?e ?fe [])
     = fst (feature_changes_addr_reasons ?e (fe_1\<lparr>blink_components := [''Blink'']\<rparr>) [])"
    using skipped [of "[]", THEN conjunct1] by simp
  have b: "(WARNING, ''Blink component \"Unknown\" not found.Not sending email to subscribers'')
       \<in> set (snd (feature_changes_addr_reasons ?e ?fe []))"
    using skipped [of "[]", THEN conjunct2, THEN conjunct1] by (simp add: component_warning_def)
  have c: "\<exists>tasks lg rules.
          make_feature_changes_email ?e ?fe False (Some []) = (Inr tasks, lg)
        \<and> (WARNING, ''Blink component \"Unknown\" not found.Not sending email to subscribers'')
            \<in> set lg
        \<and> apply_subscription_rules ?e ?fe [] = Inr rules
        \<and> set (map to tasks) = recipients (category_contributions ?e
             (fe_1\<lparr>blink_components := [''Blink'']\<rparr>) rules)"
    using skipped [THEN conjunct2, THEN conjunct2, THEN conjunct2, THEN mp, OF ok]
    by (simp add: component_warning_def)
  from a b c show ?thesis by (intro conjI)
qed

subsection \<open>A comment on a gate without a stage\<close>

text \<open>
  Claim C9.  When the gate id has no stored gate, or the stage id of the gate has no stored
  stage, \<open>post_comment_to_mailing_list\<close> raises an error and leaves the outbox as it was:
  no task is enqueued and nothing is logged.  The error is the \<^verbatim>\<open>ValueError\<close> that says
  that no matching stage was found, for every approval field id that
  \<^verbatim>\<open>APPROVAL_FIELDS_BY_ID\<close> lists (the lookup of the field comes first in the source).
\<close>

theorem comment_without_stage_raises:
  assumes "Gate_get_by_id e gate_id = None
           \<or> (\<exists>g. Gate_get_by_id e gate_id = Some g \<and> Stage_get_by_id e (stage_id g) = None)"
  shows "(\<exists>err. post_comment_to_mailing_list e feature gate_id approval_field_id author_addr
                  comment_content ob = (Inl err, ob))
     \<and> (APPROVAL_FIELDS_BY_ID e approval_field_id \<noteq> None \<longrightarrow>
          post_comment_to_mailing_list e feature gate_id approval_field_id author_addr
            comment_content ob
          = (Inl (ValueError ''No matching Stage entity found for given Gate ID.''), ob))"
  using assms
  by (auto simp: post_comment_to_mailing_list_def Let_def split: option.splits)

theorem comment_without_stage_raises_witness:
  "post_comment_to_mailing_list
       (test_env \<lparr> desktop_first = None, android_first = None, webview_first = None \<rparr>)
       fe_1 7 4 ''reviewer@example.com'' ''Looks good'' \<lparr> enqueued = [], logged = [] \<rparr>
     = (Inl (ValueError ''No matching Stage entity found for given Gate ID.''),
        \<lparr> enqueued = [], logged = [] \<rparr>)
   \<and> post_comment_to_mailing_list
       ((test_env \<lparr> desktop_first = None, android_first = None, webview_first = None \<rparr>)
          \<lparr> Gate_get_by_id := [7 \<mapsto> \<lparr> stage_id = 70, gate_type = 4, assignee_emails = [] \<rparr>] \<rparr>)
       fe_1 7 4 ''reviewer@example.com'' ''Looks good'' \<lparr> enqueued = [], logged = [] \<rparr>
     = (Inl (ValueError ''No matching Stage entity found for given Gate ID.''),
        \<lparr> enqueued = [], logged = [] \<rparr>)"
proof -
  let ?e = "test_env \<lparr> desktop_first = None, android_first = None, webview_first = None \<rparr>"
  let ?e' = "?e \<lparr> Gate_get_by_id := [7 \<mapsto> \<lparr> stage_id = 70, gate_type = 4, assignee_emails = [] \<rparr>] \<rparr>"
  have no_gate: "Gate_get_by_id ?e 7 = None
           \<or> (\<exists>g. Gate_get_by_id ?e 7 = Some g \<and> Stage_get_by_id ?e (stage_id g) = None)"
    by (simp add: test_env_def)
  have no_stage: "Gate_get_by_id ?e' 7 = None
           \<or> (\<exists>g. Gate_get_by_id ?e' 7 = Some g \<and> Stage_get_by_id ?e' (stage_id g) = None)"
    by (simp add: test_env_def)
  have field: "APPROVAL_FIELDS_BY_ID ?e 4 \<noteq> None" "APPROVAL_FIELDS_BY_ID ?e' 4 \<noteq> None"
    by (simp_all add: test_env_def)
  from comment_without_stage_raises [OF no_gate, THEN conjunct2, THEN mp, OF field(1)]
       comment_without_stage_raises [OF no_stage, THEN conjunct2, THEN mp, OF field(2)]
  show ?thesis by (intro conjI)
qed

subsection \<open>The handler of feature changes\<close>

lemma send_each_enqueues:
  "SEND_EMAIL (settings e) \<Longrightarrow>
     send_each e tasks ob =
       ob\<lparr>enqueued := enqueued ob @ map (Pair ''/tasks/outbound-email'') tasks\<rparr>"
  by (induction tasks arbitrary: ob) auto

lemma send_each_logs:
  "\<not> SEND_EMAIL (settings e) \<Longrightarrow>
     send_each e tasks ob =
       ob\<lparr>logged := logged ob @ map (\<lambda>task. (INFO, would_send e task)) tasks\<rparr>"
  by (induction tasks arbitrary: ob) (auto simp: logging_def)

lemma logged_send_emails:
  "\<not> SEND_EMAIL (settings e) \<Longrightarrow>
     logged (send_emails e tasks ob) =
       logged ob @ [(INFO, ''Processing '' @ str_nat (length tasks) @ '' email tasks'')]
         @ map (\<lambda>task. (INFO, would_send e task)) tasks"
  by (simp add: send_emails_def send_each_logs logging_def)

lemma enqueued_send_emails:
  "enqueued (send_emails e tasks ob) =
     (if SEND_EMAIL (settings e)
      then enqueued ob @ map (Pair ''/tasks/outbound-email'') tasks else enqueued ob)"
  by (simp add: send_emails_def send_each_enqueues send_each_logs logging_def)

text \<open>
  Claim C10.  For a payload of an update with an empty or absent list of changes,
  \<open>process_post_data\<close> enqueues nothing and logs nothing but its opening line, whether the
  feature is stored or not, and answers \<^verbatim>\<open>Done\<close>.  The same holds when the feature is
  not stored.  For a payload of a creation whose feature is stored, the handler calls
  \<open>make_feature_changes_email\<close> and raises what that raises; when
  \<open>format_email_body\<close> returns the body and the type of the feature is listed, it
  hands the tasks to \<open>send_emails\<close> and answers \<^verbatim>\<open>Done\<close>: with
  \<^verbatim>\<open>SEND_EMAIL\<close> on, the tasks are enqueued after what was enqueued before, one per
  recipient of the feature (none for a feature without any recipient); with
  \<^verbatim>\<open>SEND_EMAIL\<close> off, nothing is enqueued and the line of every task is in the log.
  The third part speaks of the lines that are in the log, not of the whole log, which in
  the source also holds the two lines of \<^verbatim>\<open>get_feature_starrers\<close>.
\<close>

theorem handler_sends_creations_and_real_updates:
  "(param_is_update req \<and> (param_changes req = None \<or> param_changes req = Some []) \<longrightarrow>
      enqueued (snd (process_post_data e req ob)) = enqueued ob
    \<and> (\<forall>entry \<in> set (logged (snd (process_post_data e req ob))).
          entry \<in> set (logged ob)
        \<or> (\<exists>feature. param_feature req = Some feature \<and>
              entry = (INFO, ''Starting to notify subscribers for feature ''
                         @ take (MAX_LOG_LINE e) (json_repr feature))))
    \<and> (task_header req \<and> param_feature req \<noteq> None \<longrightarrow>
          fst (process_post_data e req ob) = Inr ''Done''))
   \<and> ((\<forall>feature. param_feature req = Some feature \<longrightarrow>
          FeatureEntry_get_by_id e (json_id feature) = None) \<longrightarrow>
      enqueued (snd (process_post_data e req ob)) = enqueued ob
    \<and> (\<forall>entry \<in> set (logged (snd (process_post_data e req ob))).
          entry \<in> set (logged ob)
        \<or> (\<exists>feature. param_feature req = Some feature \<and>
              entry = (INFO, ''Starting to notify subscribers for feature ''
                         @ take (MAX_LOG_LINE e) (json_repr feature)))))
   \<and> (\<forall>feature fe email_html.
        task_header req \<and> param_feature req = Some feature \<and> \<not> param_is_update req
        \<and> FeatureEntry_get_by_id e (json_id feature) = Some fe
        \<and> format_email_body e ''new-feature-email.html'' fe
              (case param_changes req of None \<Rightarrow> [] | Some cs \<Rightarrow> cs) None = Inr email_html
        \<and> STAGE_TYPES_SHIPPING e (feature_type fe) \<noteq> None \<longrightarrow>
        (\<exists>tasks lg.
            make_feature_changes_email e fe False
              (Some (case param_changes req of None \<Rightarrow> [] | Some cs \<Rightarrow> cs)) = (Inr tasks, lg)
          \<and> fst (process_post_data e req ob) = Inr ''Done''
          \<and> enqueued (snd (process_post_data e req ob))
                = (if SEND_EMAIL (settings e)
                   then enqueued ob @ map (Pair ''/tasks/outbound-email'') tasks
                   else enqueued ob)
          \<and> (\<not> SEND_EMAIL (settings e) \<longrightarrow>
                (\<forall>task \<in> set tasks.
                    (INFO, would_send e task)
                      \<in> set (logged (snd (process_post_data e req ob)))))))"
proof (intro conjI impI allI)
  assume u: "param_is_update req \<and> (param_changes req = None \<or> param_changes req = Some [])"
  then show "enqueued (snd (process_post_data e req ob)) = enqueued ob"
    by (auto simp: process_post_data_def Let_def logging_def split: option.splits)
  from u show "\<forall>entry \<in> set (logged (snd (process_post_data e req ob))).
          entry \<in> set (logged ob)
        \<or> (\<exists>feature. param_feature req = Some feature \<and>
              entry = (INFO, ''Starting to notify subscribers for feature ''
                         @ take (MAX_LOG_LINE e) (json_repr feature)))"
    by (auto simp: process_post_data_def Let_def logging_def split: option.splits)
  assume "task_header req \<and> param_feature req \<noteq> None"
  with u show "fst (process_post_data e req ob) = Inr ''Done''"
    by (auto simp: process_post_data_def Let_def split: option.splits)
next
  assume m: "\<forall>feature. param_feature req = Some feature \<longrightarrow>
          FeatureEntry_get_by_id e (json_id feature) = None"
  then show "enqueued (snd (process_post_data e req ob)) = enqueued ob"
    by (auto simp: process_post_data_def Let_def logging_def split: option.splits)
  from m show "\<forall>entry \<in> set (logged (snd (process_post_data e req ob))).
          entry \<in> set (logged ob)
        \<or> (\<exists>feature. param_feature req = Some feature \<and>
              entry = (INFO, ''Starting to notify subscribers for feature ''
                         @ take (MAX_LOG_LINE e) (json_repr feature)))"
    by (auto simp: process_post_data_def Let_def logging_def split: option.splits)
next
  fix feature fe email_html
  assume a: "task_header req \<and> param_feature req = Some feature \<and> \<not> param_is_update req
        \<and> FeatureEntry_get_by_id e (json_id feature) = Some fe
        \<and> format_email_body e ''new-feature-email.html'' fe
              (case param_changes req of None \<Rightarrow> [] | Some cs \<Rightarrow> cs) None = Inr email_html
        \<and> STAGE_TYPES_SHIPPING e (feature_type fe) \<noteq> None"
  define chs where "chs = (case param_changes req of None \<Rightarrow> [] | Some cs \<Rightarrow> cs)"
  have body: "format_email_body e
      (if False then ''update-feature-email.html'' else ''new-feature-email.html'')
      fe chs None = Inr email_html"
    using a by (simp add: chs_def)
  have listed: "STAGE_TYPES_SHIPPING e (feature_type fe) \<noteq> None"
    using a by simp
  have "chs = (case Some chs of None \<Rightarrow> [] | Some cs \<Rightarrow> cs)" by simp
  from feature_changes_tasks[OF body listed this] obtain tasks lg where
    result: "make_feature_changes_email e fe False (Some chs) = (Inr tasks, lg)"
    by blast
  let ?ob = "logging INFO (''Starting to notify subscribers for feature ''
                     @ take (MAX_LOG_LINE e) (json_repr feature)) ob"
  have p: "process_post_data e req ob =
              (Inr ''Done'', send_emails e tasks (?ob\<lparr>logged := logged ?ob @ lg\<rparr>))"
    using a result by (simp add: process_post_data_def Let_def chs_def)
  have d: "fst (process_post_data e req ob) = Inr ''Done''"
    by (simp add: p)
  have q: "enqueued (snd (process_post_data e req ob))
                = (if SEND_EMAIL (settings e)
                   then enqueued ob @ map (Pair ''/tasks/outbound-email'') tasks
                   else enqueued ob)"
    by (simp add: p enqueued_send_emails logging_def)
  have l: "\<not> SEND_EMAIL (settings e) \<longrightarrow>
                (\<forall>task \<in> set tasks.
                    (INFO, would_send e task)
                      \<in> set (logged (snd (process_post_data e req ob))))"
    by (simp add: p logged_send_emails)
  from result d q l
  show "\<exists>tasks lg.
            make_feature_changes_email e fe False
              (Some (case param_changes req of None \<Rightarrow> [] | Some cs \<Rightarrow> cs)) = (Inr tasks, lg)
          \<and> fst (process_post_data e req ob) = Inr ''Done''
          \<and> enqueued (snd (process_post_data e req ob))
                = (if SEND_EMAIL (settings e)
                   then enqueued ob @ map (Pair ''/tasks/outbound-email'') tasks
                   else enqueued ob)
          \<and> (\<not> SEND_EMAIL (settings e) \<longrightarrow>
                (\<forall>task \<in> set tasks.
                    (INFO, would_send e task)
                      \<in> set (logged (snd (process_post_data e req ob)))))"
    unfolding chs_def by blast
qed

theorem handler_sends_creations_and_real_updates_witness:
  "enqueued (snd (process_post_data
       (test_env \<lparr> desktop_first = None, android_first = None, webview_first = None \<rparr>)
       \<lparr> task_header = True,
         param_feature = Some \<lparr> json_id = 1, json_repr = ''{'id': 1}'' \<rparr>,
         param_is_update = True, param_changes = None \<rparr>
       \<lparr> enqueued = [], logged = [] \<rparr>)) = []
   \<and> fst (process_post_data
       (test_env \<lparr> desktop_first = None, android_first = None, webview_first = None \<rparr>)
       \<lparr> task_header = True,
         param_feature = Some \<lparr> json_id = 1, json_repr = ''{'id': 1}'' \<rparr>,
         param_is_update = True, param_changes = None \<rparr>
       \<lparr> enqueued = [], logged = [] \<rparr>) = Inr ''Done''
   \<and> enqueued (snd (process_post_data
       (test_env \<lparr> desktop_first = None, android_first = None, webview_first = None \<rparr>)
       \<lparr> task_header = True,
         param_feature = Some \<lparr> json_id = 99, json_repr = ''{'id': 99}'' \<rparr>,
         param_is_update = False, param_changes = None \<rparr>
       \<lparr> enqueued = [], logged = [] \<rparr>)) = []
   \<and> map (\<lambda>(endpoint, task). (endpoint, to task))
       (enqueued (snd (process_post_data
         (test_env \<lparr> desktop_first = None, android_first = None, webview_first = None \<rparr>)
         \<lparr> task_header = True,
           param_feature = Some \<lparr> json_id = 1, json_repr = ''{'id': 1}'' \<rparr>,
           param_is_update = False, param_changes = None \<rparr>
         \<lparr> enqueued = [], logged = [] \<rparr>)))
     = [(''/tasks/outbound-email'', ''cc@example.com''),
        (''/tasks/outbound-email'', ''devrel1@gmail.com''),
        (''/tasks/outbound-email'', ''feature_editor@example.com''),
        (''/tasks/outbound-email'', ''feature_owner@example.com''),
        (''/tasks/outbound-email'', ''owner_1@example.com''),
        (''/tasks/outbound-email'', ''watcher_1@example.com'')]"
proof -
  let ?e = "test_env \<lparr> desktop_first = None, android_first = None, webview_first = None \<rparr>"
  let ?ob = "\<lparr> enqueued = [], logged = [] \<rparr>"
  let ?feature = "\<lparr> json_id = 1, json_repr = ''{'id': 1}'' \<rparr>"
  let ?update = "\<lparr> task_header = True, param_feature = Some ?feature,
         param_is_update = True, param_changes = None \<rparr>"
  let ?missing = "\<lparr> task_header = True,
         param_feature = Some \<lparr> json_id = 99, json_repr = ''{'id': 99}'' \<rparr>,
         param_is_update = False, param_changes = None \<rparr>"
  let ?creation = "\<lparr> task_header = True, param_feature = Some ?feature,
         param_is_update = False, param_changes = None \<rparr>"
  have u: "param_is_update ?update
      \<and> (param_changes ?update = None \<or> param_changes ?update = Some [])"
    by simp
  have h: "task_header ?update \<and> param_feature ?update \<noteq> None"
    by simp
  have m: "\<forall>feature. param_feature ?missing = Some feature \<longrightarrow>
          FeatureEntry_get_by_id ?e (json_id feature) = None"
    by (simp add: test_env_def)
  have c: "task_header ?creation \<and> param_feature ?creation = Some ?feature
        \<and> \<not> param_is_update ?creation
        \<and> FeatureEntry_get_by_id ?e (json_id ?feature) = Some fe_1
        \<and> format_email_body ?e ''new-feature-email.html'' fe_1
              (case param_changes ?creation of None \<Rightarrow> [] | Some cs \<Rightarrow> cs) None
            = Inr ''mock body html''
        \<and> STAGE_TYPES_SHIPPING ?e (feature_type fe_1) \<noteq> None"
    by (simp add: format_email_body_def test_env_def fe_1_def)
  have s: "SEND_EMAIL (settings ?e)"
    by (simp add: test_env_def test_settings_def)
  note update = handler_sends_creations_and_real_updates
    [of ?update ?e ?ob, THEN conjunct1, THEN mp, OF u]
  note missing = handler_sends_creations_and_real_updates
    [of ?missing ?e ?ob, THEN conjunct2, THEN conjunct1, THEN mp, OF m]
  note creation = handler_sends_creations_and_real_updates
    [of ?creation ?e ?ob, THEN conjunct2, THEN conjunct2, THEN spec, THEN spec, THEN spec,
      THEN mp, OF c]
  have 1: "enqueued (snd (process_post_data ?e ?update ?ob)) = []"
    using update [THEN conjunct1] by simp
  have 2: "fst (process_post_data ?e ?update ?ob) = Inr ''Done''"
    using update [THEN conjunct2, THEN conjunct2, THEN mp, OF h] .
  have 3: "enqueued (snd (process_post_data ?e ?missing ?ob)) = []"
    using missing [THEN conjunct1] by simp
  have rules: "apply_subscription_rules ?e fe_1 [] = Inr []"
    by (simp add: apply_subscription_rules_def test_env_def fe_1_def ship_stage_def truthy_def)
  have body: "format_email_body ?e
      (if False then ''update-feature-email.html'' else ''new-feature-email.html'')
      fe_1 (case Some [] of None \<Rightarrow> [] | Some cs \<Rightarrow> cs) None = Inr ''mock body html''"
    by (simp add: format_email_body_def test_env_def fe_1_def)
  have cs: "category_contributions ?e fe_1 [] =
     [([''feature_owner@example.com''], ''You are listed as an owner of this feature''),
      ([''feature_editor@example.com'', ''owner_1@example.com''],
         ''You are listed as an editor of this feature''),
      ([''cc@example.com''], ''You are CC'd on this feature''),
      ([''devrel1@gmail.com''], ''You are a devrel contact for this feature.''),
      ([''watcher_1@example.com''], ''You are watching all feature changes''),
      ([''owner_1@example.com''], ''You are an owner of this feature's component''),
      ([], ''You subscribe to this feature's component''),
      ([], ''You starred this feature'')]"
    by (simp add: category_contributions_def component_contributions_def get_feature_starrers_def
          test_env_def fe_1_def component_owner_1_def watcher_1_def)
  have recipients_sorted:
    "map to (projr (fst (make_feature_changes_email ?e fe_1 False (Some []))))
       = [''cc@example.com'', ''devrel1@gmail.com'', ''feature_editor@example.com'',
          ''feature_owner@example.com'', ''owner_1@example.com'', ''watcher_1@example.com'']"
    using make_feature_changes_email_calls[of ?e False fe_1 "Some []" "''mock body html''" "[]"]
      body rules
    by (simp add: cs all_tasks_def convert_reasons_to_task_def)
  from creation obtain tasks lg where
    t: "make_feature_changes_email ?e fe_1 False
          (Some (case param_changes ?creation of None \<Rightarrow> [] | Some cs \<Rightarrow> cs)) = (Inr tasks, lg)"
    and q: "enqueued (snd (process_post_data ?e ?creation ?ob))
                = (if SEND_EMAIL (settings ?e)
                   then enqueued ?ob @ map (Pair ''/tasks/outbound-email'') tasks
                   else enqueued ?ob)"
    by blast
  from t have "make_feature_changes_email ?e fe_1 False (Some []) = (Inr tasks, lg)"
    by simp
  with recipients_sorted have "map to tasks
       = [''cc@example.com'', ''devrel1@gmail.com'', ''feature_editor@example.com'',
          ''feature_owner@example.com'', ''owner_1@example.com'', ''watcher_1@example.com'']"
    by simp
  with q s have 4: "map (\<lambda>(endpoint, task). (endpoint, to task))
       (enqueued (snd (process_post_data ?e ?creation ?ob)))
     = [(''/tasks/outbound-email'', ''cc@example.com''),
        (''/tasks/outbound-email'', ''devrel1@gmail.com''),
        (''/tasks/outbound-email'', ''feature_editor@example.com''),
        (''/tasks/outbound-email'', ''feature_owner@example.com''),
        (''/tasks/outbound-email'', ''owner_1@example.com''),
        (''/tasks/outbound-email'', ''watcher_1@example.com'')]"
    by (simp add: o_def map_eq_Cons_conv)
  from 1 2 3 4 show ?thesis by (intro conjI)
qed

subsection \<open>The same inputs give the same tasks\<close>

lemma count_list_mset: "mset xs = mset ys \<Longrightarrow> count_list xs a = count_list ys a"
  by (metis count_mset)

lemma contributed_append: "contributed (cs @ ds) addr = contributed cs addr @ contributed ds addr"
  by (simp add: contributed_def)

lemma recipients_append: "recipients (cs @ ds) = recipients cs \<union> recipients ds"
  by (simp add: recipients_def)

lemma same_contributions:
  assumes "list_all2 same_contribution cs cs'"
  shows "contributed cs addr = contributed cs' addr" and "recipients cs = recipients cs'"
proof -
  show "contributed cs addr = contributed cs' addr"
    using assms
    by (induction rule: list_all2_induct)
       (auto simp: contributed_def dest: count_list_mset)
  show "recipients cs = recipients cs'"
    using assms
    by (induction rule: list_all2_induct)
       (auto simp: recipients_def dest: mset_eq_setD)
qed

lemma same_table_same_order:
  fixes t t' :: addr_reasons
  assumes d: "distinct (map fst t)" and d': "distinct (map fst t')"
    and ne: "[] \<notin> set (map snd t)" and ne': "[] \<notin> set (map snd t')"
    and r: "\<And>addr. reasons_of t addr = reasons_of t' addr"
  shows "sort t = sort t'"
proof -
  have m: "map_of t addr = map_of t' addr" for addr
  proof (cases "map_of t addr")
    case None
    show ?thesis
    proof (cases "map_of t' addr")
      case None
      with \<open>map_of t addr = None\<close> show ?thesis by simp
    next
      case (Some rs)
      then have "(addr, rs) \<in> set t'" by (rule map_of_SomeD)
      then have "rs \<in> set (map snd t')" by force
      with ne' have "rs \<noteq> []" by metis
      with r[of addr] None Some show ?thesis by (simp add: reasons_of_def)
    qed
  next
    case (Some rs)
    then have "(addr, rs) \<in> set t" by (rule map_of_SomeD)
    then have "rs \<in> set (map snd t)" by force
    with ne have "rs \<noteq> []" by metis
    with r[of addr] Some show ?thesis
      by (cases "map_of t' addr") (simp_all add: reasons_of_def)
  qed
  then have "map_of t = map_of t'" by (rule ext)
  with d d' have "set t = set t'" by (simp add: map_of_inject_set)
  moreover from d have "distinct t" by (simp add: distinct_map)
  moreover from d' have "distinct t'" by (simp add: distinct_map)
  ultimately have "mset t = mset t'" by (simp add: set_eq_iff_mset_eq_distinct)
  then have "mset (sort t') = mset t" by simp
  then show ?thesis by (rule properties_for_sort) simp
qed

lemma same_contributions_same_order:
  assumes "list_all2 same_contribution cs cs'"
  shows "sort (accumulate_calls [] cs) = sort (accumulate_calls [] cs')"
proof (rule same_table_same_order)
  show "distinct (map fst (accumulate_calls [] cs))" by (rule table_of_contributions)
  show "distinct (map fst (accumulate_calls [] cs'))" by (rule table_of_contributions)
  show "[] \<notin> set (map snd (accumulate_calls [] cs))" by (rule table_of_contributions)
  show "[] \<notin> set (map snd (accumulate_calls [] cs'))" by (rule table_of_contributions)
  show "reasons_of (accumulate_calls [] cs) addr = reasons_of (accumulate_calls [] cs') addr"
    for addr
    by (simp only: table_of_contributions(4) same_contributions(1)[OF assms])
qed

lemma all_tasks_sort:
  "sort t = sort t' \<Longrightarrow>
     all_tasks st ccf t email_html subj trig = all_tasks st ccf t' email_html subj trig"
  by (simp add: all_tasks_def)

lemma same_component_contributions:
  assumes "rel_option (\<lambda>c' c. mset (owners c') = mset (owners c)
              \<and> mset (subscribers c') = mset (subscribers c))
            (BlinkComponent_get_by_name e' n) (BlinkComponent_get_by_name e n)"
  shows "list_all2 same_contribution (component_contributions e' n) (component_contributions e n)"
  using assms
  by (cases "BlinkComponent_get_by_name e' n"; cases "BlinkComponent_get_by_name e n")
     (simp_all add: component_contributions_def)

lemma same_components_contributions:
  assumes "\<forall>n. rel_option (\<lambda>c' c. mset (owners c') = mset (owners c)
              \<and> mset (subscribers c') = mset (subscribers c))
            (BlinkComponent_get_by_name e' n) (BlinkComponent_get_by_name e n)"
  shows "list_all2 same_contribution
           (concat (map (component_contributions e') names))
           (concat (map (component_contributions e) names))"
proof (induction names)
  case Nil
  then show ?case by simp
next
  case (Cons n names)
  have "list_all2 same_contribution (component_contributions e' n) (component_contributions e n)"
    using assms by (intro same_component_contributions) simp
  with Cons show ?case by (simp add: list_all2_appendI)
qed

lemma same_missing_components:
  assumes "\<forall>n. rel_option (\<lambda>c' c. mset (owners c') = mset (owners c)
              \<and> mset (subscribers c') = mset (subscribers c))
            (BlinkComponent_get_by_name e' n) (BlinkComponent_get_by_name e n)"
  shows "filter (\<lambda>n. BlinkComponent_get_by_name e' n = None) names
           = filter (\<lambda>n. BlinkComponent_get_by_name e n = None) names"
proof -
  have "(BlinkComponent_get_by_name e' n = None) = (BlinkComponent_get_by_name e n = None)" for n
    using assms[rule_format, of n]
    by (cases "BlinkComponent_get_by_name e' n"; cases "BlinkComponent_get_by_name e n") simp_all
  then show ?thesis by simp
qed

lemma same_category_contributions:
  assumes w: "mset (FeatureOwner_fetch e') = mset (FeatureOwner_fetch e)"
    and c: "\<forall>n. rel_option (\<lambda>c' c. mset (owners c') = mset (owners c)
              \<and> mset (subscribers c') = mset (subscribers c))
            (BlinkComponent_get_by_name e' n) (BlinkComponent_get_by_name e n)"
    and s: "mset (get_feature_starrers e' (key_integer_id fe))
              = mset (get_feature_starrers e (key_integer_id fe))"
  shows "list_all2 same_contribution
           (category_contributions e' fe rule_results) (category_contributions e fe rule_results)"
proof -
  have rules: "list_all2 same_contribution xs xs" for xs
    by (rule list_all2_refl) auto
  show ?thesis
    unfolding category_contributions_def
    by (intro list_all2_appendI same_components_contributions[OF c] rules)
       (simp_all add: w s)
qed

text \<open>
  Claim C7.  \<open>make_feature_changes_email\<close> reads the feature, the changes and the
  snapshot of the datastore and changes none of them, so a second run on the same inputs
  returns what the first did.  What could differ between two runs on the same stored
  entities is the order in which a query returns its rows; the theorem covers that too.
  Let a second snapshot hold the same watchers, the same owners and subscribers of every
  component and the same starrers of the feature as the first, in any order, and agree
  with it on everything else.  Then both runs return the same tasks in the same order and
  log the same warnings (or raise the same error).  Identical snapshots are the instance
  where the rows come in the same order.
\<close>

theorem same_snapshot_same_tasks:
  assumes e': "e' = e\<lparr> FeatureOwner_fetch := ws, BlinkComponent_get_by_name := comps,
                        FeatureStar_fetch := stars, get_prefs_for_emails := prefs \<rparr>"
    and w: "mset ws = mset (FeatureOwner_fetch e)"
    and c: "\<forall>n. rel_option (\<lambda>c' c. mset (owners c') = mset (owners c)
              \<and> mset (subscribers c') = mset (subscribers c))
            (comps n) (BlinkComponent_get_by_name e n)"
    and s: "mset (get_feature_starrers e' (key_integer_id fe))
              = mset (get_feature_starrers e (key_integer_id fe))"
  shows "make_feature_changes_email e' fe is_update changes_arg
           = make_feature_changes_email e fe is_update changes_arg"
proof -
  define chs where "chs = (case changes_arg of None \<Rightarrow> [] | Some cs \<Rightarrow> cs)"
  have "formatted_change e' ch = formatted_change e ch" for ch
    by (simp add: e' formatted_change_def)
  then have fc: "formatted_change e' = formatted_change e" by (rule ext)
  have fields: "urlparse_hostname e' = urlparse_hostname e"
    "IMPLEMENTATION_STATUS e' = IMPLEMENTATION_STATUS e"
    "render_template e' = render_template e"
    "get_stage_info_for_templates e' = get_stage_info_for_templates e"
    by (simp_all add: e')
  have body: "format_email_body e' tp fe chs None = format_email_body e tp fe chs None" for tp
    unfolding format_email_body_def fc fields by (rule refl)
  have rules: "apply_subscription_rules e' fe chs = apply_subscription_rules e fe chs"
    by (simp add: e' apply_subscription_rules_def Let_def split: option.splits list.splits)
  have w': "mset (FeatureOwner_fetch e') = mset (FeatureOwner_fetch e)"
    using w by (simp add: e')
  have c': "\<forall>n. rel_option (\<lambda>c' c. mset (owners c') = mset (owners c)
              \<and> mset (subscribers c') = mset (subscribers c))
            (BlinkComponent_get_by_name e' n) (BlinkComponent_get_by_name e n)"
    using c by (simp add: e')
  have warnings: "snd (feature_changes_addr_reasons e' fe chs)
      = snd (feature_changes_addr_reasons e fe chs)"
    by (simp add: feature_changes_addr_reasons_calls same_missing_components[OF c'])
  have st: "settings e' = settings e" "can_create_feature e' = can_create_feature e"
    by (simp_all add: e')
  have tasks: "all_tasks (settings e') (can_create_feature e')
                 (accumulate_calls [] (category_contributions e' fe rule_results)) h sj tr
             = all_tasks (settings e) (can_create_feature e)
                 (accumulate_calls [] (category_contributions e fe rule_results)) h sj tr"
    for rule_results h sj tr
    unfolding st
    by (intro all_tasks_sort same_contributions_same_order same_category_contributions w' c' s)
  show ?thesis
  proof (cases "apply_subscription_rules e fe chs")
    case (Inl err)
    then show ?thesis
      using rules warnings body
      by (simp add: make_feature_changes_email_def Let_def feature_changes_addr_reasons_calls
            chs_def[symmetric] split: sum.splits)
  next
    case (Inr rule_results)
    then show ?thesis
      using rules warnings body tasks
      by (simp add: make_feature_changes_email_def Let_def feature_changes_addr_reasons_calls
            chs_def[symmetric] split: sum.splits)
  qed
qed


theorem same_snapshot_same_tasks_witness:
  "make_feature_changes_email
     ((test_env \<lparr> desktop_first = None, android_first = None, webview_first = None \<rparr>)
        \<lparr> FeatureOwner_fetch :=
            [\<lparr> FeatureOwner.email = ''watcher_2@example.com'', watching_all_features = True \<rparr>,
             component_owner_1, watcher_1],
          BlinkComponent_get_by_name :=
            BlinkComponent_get_by_name
              (test_env \<lparr> desktop_first = None, android_first = None, webview_first = None \<rparr>),
          FeatureStar_fetch := [],
          get_prefs_for_emails :=
            get_prefs_for_emails
              (test_env \<lparr> desktop_first = None, android_first = None, webview_first = None \<rparr>) \<rparr>)
     fe_1 True
     (Some [\<lparr> prop_name = ''test_prop'', old_val = ''test old value'',
              new_val = ''test new value'' \<rparr>])
   = make_feature_changes_email
     ((test_env \<lparr> desktop_first = None, android_first = None, webview_first = None \<rparr>)
        \<lparr> FeatureOwner_fetch :=
            [component_owner_1, watcher_1,
             \<lparr> FeatureOwner.email = ''watcher_2@example.com'', watching_all_features = True \<rparr>] \<rparr>)
     fe_1 True
     (Some [\<lparr> prop_name = ''test_prop'', old_val = ''test old value'',
              new_val = ''test new value'' \<rparr>])"
proof -
  let ?w2 = "\<lparr> FeatureOwner.email = ''watcher_2@example.com'', watching_all_features = True \<rparr>"
  let ?e0 = "test_env \<lparr> desktop_first = None, android_first = None, webview_first = None \<rparr>"
  let ?e = "?e0 \<lparr> FeatureOwner_fetch := [component_owner_1, watcher_1, ?w2] \<rparr>"
  let ?e' = "?e0 \<lparr> FeatureOwner_fetch := [?w2, component_owner_1, watcher_1],
                    BlinkComponent_get_by_name := BlinkComponent_get_by_name ?e0,
                    FeatureStar_fetch := [],
                    get_prefs_for_emails := get_prefs_for_emails ?e0 \<rparr>"
  have snapshot: "?e' = ?e \<lparr> FeatureOwner_fetch := [?w2, component_owner_1, watcher_1],
                    BlinkComponent_get_by_name := BlinkComponent_get_by_name ?e0,
                    FeatureStar_fetch := [],
                    get_prefs_for_emails := get_prefs_for_emails ?e0 \<rparr>"
    by simp
  have watchers: "mset [?w2, component_owner_1, watcher_1] = mset (FeatureOwner_fetch ?e)"
    by simp
  have components: "\<forall>n. rel_option (\<lambda>c' c. mset (owners c') = mset (owners c)
              \<and> mset (subscribers c') = mset (subscribers c))
            (BlinkComponent_get_by_name ?e0 n) (BlinkComponent_get_by_name ?e n)"
    by (simp add: option.rel_refl)
  have starrers: "mset (get_feature_starrers ?e' (key_integer_id fe_1))
              = mset (get_feature_starrers ?e (key_integer_id fe_1))"
    by (simp add: get_feature_starrers_def test_env_def)
  from same_snapshot_same_tasks [OF snapshot watchers components starrers]
  show ?thesis by simp
qed

end
